theory Spec2Isabelle
  imports Main
begin

section \<open>JavaScript values, objects and strings\<close>

text \<open>
  The fields the two platforms exchange are strings that may be missing: a property of a
  JSON answer is a string, \<open>null\<close>, or not there at all (\<open>undefined\<close> when read).
\<close>

datatype jsval = Undefined | Null | Str string

text \<open>Truthiness, as \<open>if (v)\<close>, \<open>v && ...\<close> and \<open>v || d\<close> test it: the empty string is falsy.\<close>

fun truthy :: "jsval \<Rightarrow> bool" where
  "truthy (Str s) = (s \<noteq> [])"
| "truthy Undefined = False"
| "truthy Null = False"

text \<open>\<open>a || d\<close>\<close>

definition js_or :: "jsval \<Rightarrow> jsval \<Rightarrow> jsval" where
  "js_or a d = (if truthy a then a else d)"

text \<open>A value interpolated into a template literal, \<open>`${v}`\<close>.\<close>

fun to_string :: "jsval \<Rightarrow> string" where
  "to_string Undefined = ''undefined''"
| "to_string Null = ''null''"
| "to_string (Str s) = s"

text \<open>
  An object that is filled key by key, as the list of its properties in the order in
  which \<open>Object.keys\<close> and \<open>JSON.stringify\<close> go through them: first the keys that
  are array indices (the decimal numerals of \<open>0\<close> to \<open>2\<^sup>3\<^sup>2 - 2\<close>, without leading
  zeros) by ascending value, then the other keys in the order of their insertion. An
  assignment to a key that is there replaces its value in place, and reading a key that
  is not there gives \<open>undefined\<close>.
\<close>

type_synonym obj = "(string \<times> jsval) list"

definition is_digit :: "char \<Rightarrow> bool" where
  "is_digit c = (c \<in> set ''0123456789'')"

definition nat_of_string :: "string \<Rightarrow> nat" where
  "nat_of_string s = foldl (\<lambda>n c. 10 * n + (of_char c - 48)) 0 s"

definition array_index :: "string \<Rightarrow> nat option" where
  "array_index s =
     (if s \<noteq> [] \<and> list_all is_digit s \<and> (s = ''0'' \<or> take 1 s \<noteq> ''0'')
         \<and> nat_of_string s < 4294967295
      then Some (nat_of_string s) else None)"

definition key_before :: "string \<Rightarrow> string \<Rightarrow> bool" where
  "key_before k k' =
     (case array_index k of
        None \<Rightarrow> False
      | Some n \<Rightarrow> (case array_index k' of None \<Rightarrow> True | Some n' \<Rightarrow> n < n'))"

fun obj_insert :: "obj \<Rightarrow> string \<Rightarrow> jsval \<Rightarrow> obj" where
  "obj_insert [] k v = [(k, v)]"
| "obj_insert ((k', v') # kvs) k v =
     (if key_before k k' then (k, v) # (k', v') # kvs else (k', v') # obj_insert kvs k v)"

definition obj_set :: "obj \<Rightarrow> string \<Rightarrow> jsval \<Rightarrow> obj" where
  "obj_set ob k v =
     (if k \<in> fst ` set ob then map (\<lambda>kv. if fst kv = k then (k, v) else kv) ob
      else obj_insert ob k v)"

definition obj_get :: "obj \<Rightarrow> string \<Rightarrow> jsval" where
  "obj_get ob k = (case map_of ob k of None \<Rightarrow> Undefined | Some v \<Rightarrow> v)"

definition Object_keys :: "obj \<Rightarrow> string list" where
  "Object_keys ob = map fst ob"

text \<open>\<open>xs.join(sep)\<close>\<close>

fun join :: "string \<Rightarrow> string list \<Rightarrow> string" where
  "join sep [] = []"
| "join sep [x] = x"
| "join sep (x # y # ys) = x @ sep @ join sep (y # ys)"

text \<open>A counter interpolated into a template literal: its decimal digits.\<close>

fun show_nat :: "nat \<Rightarrow> string" where
  "show_nat n =
     (if n < 10 then [char_of (48 + n)]
      else show_nat (n div 10) @ [char_of (48 + n mod 10)])"

declare show_nat.simps [simp del]

text \<open>The arrow of the log messages (U+2192), as its three UTF-8 bytes.\<close>

definition arrow :: string where
  "arrow = [CHR 0xE2, CHR 0x86, CHR 0x92]"

section \<open>Data model\<close>

text \<open>A HubSpot ticket, as \<open>GET /crm/v3/objects/tickets\<close> lists it.\<close>

record properties =
  prop_subject :: jsval
  prop_content :: jsval
  hs_pipeline_stage :: jsval
  hs_ticket_priority :: jsval

record ticket =
  ticket_id :: string
  properties :: properties

text \<open>A Monday item with its column values, as the \<open>items_page\<close> query lists it.\<close>

record col =
  col_id :: string
  col_text :: jsval

record item =
  item_id :: string
  name :: string
  column_values :: "col list"

text \<open>\<open>ticketData\<close> and \<open>itemData\<close>: the four logical fields of one source record.\<close>

record fields =
  subject :: jsval
  content :: jsval
  status :: jsval
  priority :: jsval

record fieldRules =
  r_title :: string
  r_description :: string
  r_status :: string
  r_priority :: string
  r_assignee :: string

record fieldMapping =
  m_description :: string
  m_status :: string
  m_priority :: string
  m_assignee :: string

record logEntry =
  timestamp :: string
  message :: string
  type :: string

text \<open>
  The process-wide \<open>config\<close>. Its two caches (\<open>mondayColumns\<close>, \<open>hubspotProperties\<close>)
  are only written by field discovery and never read by a pass; they are left out.
\<close>

record config =
  hubspotToken :: string
  mondayToken :: string
  mondayBoardId :: string
  syncEnabled :: bool
  lastSync :: "string option"
  syncLog :: "logEntry list"
  fieldRules :: fieldRules
  fieldMapping :: fieldMapping

definition initial_config :: "string \<Rightarrow> string \<Rightarrow> string \<Rightarrow> config" where
  "initial_config HUBSPOT_TOKEN MONDAY_TOKEN MONDAY_BOARD_ID =
     \<lparr>hubspotToken = HUBSPOT_TOKEN, mondayToken = MONDAY_TOKEN,
      mondayBoardId = MONDAY_BOARD_ID, syncEnabled = False, lastSync = None, syncLog = [],
      fieldRules = \<lparr>r_title = ''hubspot'', r_description = ''hubspot'', r_status = ''monday'',
                    r_priority = ''monday'', r_assignee = ''both''\<rparr>,
      fieldMapping = \<lparr>m_description = ''text'', m_status = ''status'',
                      m_priority = ''priority'', m_assignee = ''person''\<rparr>\<rparr>"

section \<open>The environment: HTTP and the clock\<close>

text \<open>
  The three GraphQL documents \<open>mondayQuery\<close> is called with, each with its variables;
  \<open>columnValues\<close> is kept as the object that \<open>JSON.stringify\<close> is applied to.
\<close>

datatype mquery =
  ItemsQuery string
| CreateItem string jsval obj
| ChangeColumns string string obj

text \<open>A property of an answer that may be left out, or be \<open>null\<close>.\<close>

datatype 'a jsopt = Missing | IsNull | Given 'a

text \<open>
  \<open>response.data\<close> of a Monday call: \<open>errors\<close> (the messages of the array, when the key is
  there) and \<open>data\<close> (here \<open>answer_data\<close>), of which a pass reads \<open>boards\<close> (for each board
  \<open>items_page?.items\<close>, when it is there) and, only to return them, \<open>create_item\<close> and
  \<open>change_multiple_column_values\<close>. An answer can come with neither \<open>errors\<close> nor
  \<open>data\<close>. The tickets and items listed are taken to have the fields asked for.
\<close>

record mdata =
  boards :: "item list option list jsopt"

record mresponse =
  errors :: "string list option"
  answer_data :: "mdata jsopt"

text \<open>
  Reading the property \<open>prop\<close> of a value: of \<open>undefined\<close> or \<open>null\<close> it throws a
  \<open>TypeError\<close>, whose message is \<open>Inl\<close>.
\<close>

definition cannot_read :: "string \<Rightarrow> string \<Rightarrow> string" where
  "cannot_read what prop =
     ''Cannot read properties of '' @ what @ '' (reading '' @ [CHR 0x27] @ prop
       @ [CHR 0x27] @ '')''"

definition read_of :: "'a jsopt \<Rightarrow> string \<Rightarrow> string + 'a" where
  "read_of v prop =
     (case v of
        Missing \<Rightarrow> Inl (cannot_read ''undefined'' prop)
      | IsNull \<Rightarrow> Inl (cannot_read ''null'' prop)
      | Given x \<Rightarrow> Inr x)"

text \<open>
  Everything outside the process is one value of type \<open>'w\<close>; an \<open>axios\<close> call takes it to
  the next one and either throws (\<open>Inl\<close> the error's message) or answers.
  \<^item> \<open>hubspot_get\<close>: \<open>axios.get\<close> of the ticket list (the properties
    \<open>subject,content,hs_pipeline_stage,hs_ticket_priority,hubspot_owner_id\<close>, \<open>limit: 100\<close>),
    given the \<open>Authorization\<close> header; the answer is \<open>response.data.results\<close>.
  \<^item> \<open>hubspot_post\<close>: \<open>axios.post\<close> of a new ticket, given header and \<open>properties\<close>.
  \<^item> \<open>hubspot_patch\<close>: \<open>axios.patch\<close> of a ticket, given header, id and \<open>properties\<close>.
  \<^item> \<open>monday_post\<close>: \<open>axios.post\<close> to the Monday API, given header and query.
  \<^item> \<open>date_now\<close>: \<open>new Date().toISOString()\<close>.
\<close>

record 'w env =
  hubspot_get :: "string \<Rightarrow> 'w \<Rightarrow> (string + ticket list option) \<times> 'w"
  hubspot_post :: "string \<Rightarrow> obj \<Rightarrow> 'w \<Rightarrow> (string + unit) \<times> 'w"
  hubspot_patch :: "string \<Rightarrow> string \<Rightarrow> obj \<Rightarrow> 'w \<Rightarrow> (string + unit) \<times> 'w"
  monday_post :: "string \<Rightarrow> mquery \<Rightarrow> 'w \<Rightarrow> (string + mresponse) \<times> 'w"
  date_now :: "'w \<Rightarrow> string"

section \<open>Logging\<close>

text \<open>\<open>logSync\<close>; the copy of the entry on the console is left out.\<close>

definition logSync :: "'w env \<Rightarrow> string \<Rightarrow> string \<Rightarrow> config \<times> 'w \<Rightarrow> config \<times> 'w" where
  "logSync e msg ty st =
     (case st of (cfg, w) \<Rightarrow>
        let logEntry = \<lparr>timestamp = date_now e w, message = msg, type = ty\<rparr>;
            l = logEntry # syncLog cfg
        in (cfg\<lparr>syncLog := (if length l > 50 then butlast l else l)\<rparr>, w))"

section \<open>HubSpot calls\<close>

text \<open>
  Each call returns \<open>Inl\<close> the message of the error it throws, or \<open>Inr\<close> its result,
  together with the configuration (whose log it may have extended) and the world.
\<close>

definition getHubSpotTickets ::
  "'w env \<Rightarrow> config \<times> 'w \<Rightarrow> (string + ticket list) \<times> (config \<times> 'w)" where
  "getHubSpotTickets e st =
     (case st of (cfg, w) \<Rightarrow>
        (case hubspot_get e (''Bearer '' @ hubspotToken cfg) w of
           (Inl m, w') \<Rightarrow>
             (Inl m, logSync e (''Error fetching HubSpot tickets: '' @ m) ''error'' (cfg, w'))
         | (Inr results, w') \<Rightarrow>
             (Inr (case results of None \<Rightarrow> [] | Some ts \<Rightarrow> ts), (cfg, w'))))"

definition createHubSpotTicket_properties :: "fields \<Rightarrow> obj" where
  "createHubSpotTicket_properties data =
     [(''subject'', subject data),
      (''content'', content data),
      (''hs_pipeline_stage'', js_or (status data) (Str ''new'')),
      (''hs_ticket_priority'', js_or (priority data) (Str ''MEDIUM''))]"

definition createHubSpotTicket ::
  "'w env \<Rightarrow> fields \<Rightarrow> config \<times> 'w \<Rightarrow> (string + unit) \<times> (config \<times> 'w)" where
  "createHubSpotTicket e data st =
     (case st of (cfg, w) \<Rightarrow>
        (case hubspot_post e (''Bearer '' @ hubspotToken cfg)
                (createHubSpotTicket_properties data) w of
           (Inl m, w') \<Rightarrow>
             (Inl m, logSync e (''Error creating HubSpot ticket: '' @ m) ''error'' (cfg, w'))
         | (Inr r, w') \<Rightarrow> (Inr r, (cfg, w'))))"

definition updateHubSpotTicket_properties :: "obj \<Rightarrow> obj" where
  "updateHubSpotTicket_properties data =
     (let p0 = [];
          p1 = (if obj_get data ''subject'' \<noteq> Undefined
                then obj_set p0 ''subject'' (obj_get data ''subject'') else p0);
          p2 = (if obj_get data ''content'' \<noteq> Undefined
                then obj_set p1 ''content'' (obj_get data ''content'') else p1);
          p3 = (if obj_get data ''status'' \<noteq> Undefined
                then obj_set p2 ''hs_pipeline_stage'' (obj_get data ''status'') else p2);
          p4 = (if obj_get data ''priority'' \<noteq> Undefined
                then obj_set p3 ''hs_ticket_priority'' (obj_get data ''priority'') else p3)
      in p4)"

definition updateHubSpotTicket ::
  "'w env \<Rightarrow> string \<Rightarrow> obj \<Rightarrow> config \<times> 'w \<Rightarrow> (string + unit) \<times> (config \<times> 'w)" where
  "updateHubSpotTicket e ticketId data st =
     (case st of (cfg, w) \<Rightarrow>
        (case hubspot_patch e (''Bearer '' @ hubspotToken cfg) ticketId
                (updateHubSpotTicket_properties data) w of
           (Inl m, w') \<Rightarrow>
             (Inl m, logSync e (''Error updating HubSpot ticket: '' @ m) ''error'' (cfg, w'))
         | (Inr r, w') \<Rightarrow> (Inr r, (cfg, w'))))"

section \<open>Monday calls\<close>

text \<open>
  \<open>mondayQuery\<close>: an answer with an \<open>errors\<close> key throws the first message; when the
  array is empty, reading \<open>errors[0].message\<close> is itself the \<open>TypeError\<close> thrown.
  Everything thrown inside is logged and thrown again. The result is \<open>response.data.data\<close>,
  there or not.
\<close>

definition mondayQuery ::
  "'w env \<Rightarrow> mquery \<Rightarrow> config \<times> 'w \<Rightarrow> (string + mdata jsopt) \<times> (config \<times> 'w)" where
  "mondayQuery e query st =
     (case st of (cfg, w) \<Rightarrow>
        (case monday_post e (mondayToken cfg) query w of
           (Inl m, w') \<Rightarrow>
             (Inl m, logSync e (''Monday.com API error: '' @ m) ''error'' (cfg, w'))
         | (Inr r, w') \<Rightarrow>
             (case errors r of
                Some es \<Rightarrow>
                  (let m = (case es of
                              [] \<Rightarrow> cannot_read ''undefined'' ''message''
                            | m0 # _ \<Rightarrow> m0)
                   in (Inl m, logSync e (''Monday.com API error: '' @ m) ''error'' (cfg, w')))
              | None \<Rightarrow> (Inr (answer_data r), (cfg, w')))))"

text \<open>
  The three callers read the result after \<open>mondayQuery\<close> has returned: when it is not
  there, what they throw is logged by no one but the pass.
\<close>

definition getMondayItems ::
  "'w env \<Rightarrow> config \<times> 'w \<Rightarrow> (string + item list) \<times> (config \<times> 'w)" where
  "getMondayItems e st =
     (case mondayQuery e (ItemsQuery (mondayBoardId (fst st))) st of
        (Inl m, st') \<Rightarrow> (Inl m, st')
      | (Inr d, st') \<Rightarrow>
          (case read_of d ''boards'' of
             Inl m \<Rightarrow> (Inl m, st')
           | Inr md \<Rightarrow>
               (case read_of (boards md) ''0'' of
                  Inl m \<Rightarrow> (Inl m, st')
                | Inr bs \<Rightarrow>
                    (Inr (case bs of
                            [] \<Rightarrow> []
                          | b # _ \<Rightarrow> (case b of None \<Rightarrow> [] | Some its \<Rightarrow> its)), st'))))"

definition createMondayItem_columnValues :: "config \<Rightarrow> fields \<Rightarrow> obj" where
  "createMondayItem_columnValues cfg ticketData =
     (let c0 = [];
          c1 = (if truthy (content ticketData) \<and> m_description (fieldMapping cfg) \<noteq> []
                then obj_set c0 (m_description (fieldMapping cfg)) (content ticketData) else c0);
          c2 = (if truthy (status ticketData) \<and> m_status (fieldMapping cfg) \<noteq> []
                then obj_set c1 (m_status (fieldMapping cfg)) (status ticketData) else c1);
          c3 = (if truthy (priority ticketData) \<and> m_priority (fieldMapping cfg) \<noteq> []
                then obj_set c2 (m_priority (fieldMapping cfg)) (priority ticketData) else c2)
      in c3)"

text \<open>
  The other copy of the program, which has no field mapping, builds the column values
  of a new item under the three fixed columns, each with a fallback.
\<close>

definition createMondayItem_columnValues_part_000 :: "fields \<Rightarrow> obj" where
  "createMondayItem_columnValues_part_000 ticketData =
     [(''text'', js_or (content ticketData) (Str [])),
      (''status'', js_or (status ticketData) (Str ''New'')),
      (''priority'', js_or (priority ticketData) (Str ''Medium''))]"

definition createMondayItem ::
  "'w env \<Rightarrow> fields \<Rightarrow> config \<times> 'w \<Rightarrow> (string + unit) \<times> (config \<times> 'w)" where
  "createMondayItem e ticketData st =
     (case mondayQuery e
             (CreateItem (mondayBoardId (fst st)) (subject ticketData)
                (createMondayItem_columnValues (fst st) ticketData)) st of
        (Inl m, st') \<Rightarrow> (Inl m, st')
      | (Inr d, st') \<Rightarrow>
          (case read_of d ''create_item'' of
             Inl m \<Rightarrow> (Inl m, st')
           | Inr md \<Rightarrow> (Inr (), st')))"

definition updateMondayItem_columnValues :: "config \<Rightarrow> obj \<Rightarrow> obj" where
  "updateMondayItem_columnValues cfg ticketData =
     (let c0 = [];
          c1 = (if obj_get ticketData ''content'' \<noteq> Undefined
                   \<and> m_description (fieldMapping cfg) \<noteq> []
                then obj_set c0 (m_description (fieldMapping cfg)) (obj_get ticketData ''content'')
                else c0);
          c2 = (if obj_get ticketData ''status'' \<noteq> Undefined
                   \<and> m_status (fieldMapping cfg) \<noteq> []
                then obj_set c1 (m_status (fieldMapping cfg)) (obj_get ticketData ''status'')
                else c1);
          c3 = (if obj_get ticketData ''priority'' \<noteq> Undefined
                   \<and> m_priority (fieldMapping cfg) \<noteq> []
                then obj_set c2 (m_priority (fieldMapping cfg)) (obj_get ticketData ''priority'')
                else c2)
      in c3)"

definition updateMondayItem ::
  "'w env \<Rightarrow> string \<Rightarrow> obj \<Rightarrow> config \<times> 'w \<Rightarrow> (string + unit) \<times> (config \<times> 'w)" where
  "updateMondayItem e itemId ticketData st =
     (case mondayQuery e
             (ChangeColumns (mondayBoardId (fst st)) itemId
                (updateMondayItem_columnValues (fst st) ticketData)) st of
        (Inl m, st') \<Rightarrow> (Inl m, st')
      | (Inr d, st') \<Rightarrow>
          (case read_of d ''change_multiple_column_values'' of
             Inl m \<Rightarrow> (Inl m, st')
           | Inr md \<Rightarrow> (Inr (), st')))"

section \<open>The two passes\<close>

text \<open>
  What the body of a pass's loop decides for one source record, before it calls the
  target: a new record with all of the source's fields, an update of the matched
  record (its id and \<open>updateData\<close>), or nothing.
\<close>

datatype action = Create fields | Update string obj | Skip

subsection \<open>HubSpot to Monday\<close>

text \<open>The \<open>Map\<close> of the Monday items by name: \<open>set\<close> replaces an earlier item of that name.\<close>

definition mondayMap :: "item list \<Rightarrow> (jsval \<rightharpoonup> item)" where
  "mondayMap mondayItems = foldl (\<lambda>m it. m(Str (name it) \<mapsto> it)) Map.empty mondayItems"

definition h2m_ticketData :: "ticket \<Rightarrow> fields" where
  "h2m_ticketData t =
     \<lparr>subject = prop_subject (properties t),
      content = prop_content (properties t),
      status = hs_pipeline_stage (properties t),
      priority = hs_ticket_priority (properties t)\<rparr>"

definition h2m_updateData :: "config \<Rightarrow> fields \<Rightarrow> obj" where
  "h2m_updateData cfg ticketData =
     (let u0 = [];
          u1 = (if r_title (fieldRules cfg) = ''hubspot'' \<or> r_title (fieldRules cfg) = ''both''
                then obj_set u0 ''subject'' (subject ticketData) else u0);
          u2 = (if r_description (fieldRules cfg) = ''hubspot''
                   \<or> r_description (fieldRules cfg) = ''both''
                then obj_set u1 ''content'' (content ticketData) else u1);
          u3 = (if r_status (fieldRules cfg) = ''hubspot'' \<or> r_status (fieldRules cfg) = ''both''
                then obj_set u2 ''status'' (status ticketData) else u2);
          u4 = (if r_priority (fieldRules cfg) = ''hubspot''
                   \<or> r_priority (fieldRules cfg) = ''both''
                then obj_set u3 ''priority'' (priority ticketData) else u3)
      in u4)"

definition h2m_plan :: "config \<Rightarrow> (jsval \<rightharpoonup> item) \<Rightarrow> ticket \<Rightarrow> action" where
  "h2m_plan cfg mMap t =
     (let ticketData = h2m_ticketData t
      in case mMap (subject ticketData) of
           None \<Rightarrow> Create ticketData
         | Some existingItem \<Rightarrow>
             (let updateData = h2m_updateData cfg ticketData
              in if length (Object_keys updateData) > 0
                 then Update (item_id existingItem) updateData else Skip))"

text \<open>
  One turn of the loop over the tickets, with the counters \<open>(created, updated)\<close>. An
  error thrown by the call leaves the loop: it is the result of the turn.
\<close>

definition h2m_record ::
  "'w env \<Rightarrow> (jsval \<rightharpoonup> item) \<Rightarrow> ticket \<Rightarrow> nat \<times> nat \<Rightarrow> config \<times> 'w
     \<Rightarrow> (string + nat \<times> nat) \<times> (config \<times> 'w)" where
  "h2m_record e mMap t cnt st =
     (case h2m_plan (fst st) mMap t of
        Create ticketData \<Rightarrow>
          (case createMondayItem e ticketData st of
             (Inl m, st') \<Rightarrow> (Inl m, st')
           | (Inr r, st') \<Rightarrow>
               (Inr (fst cnt + 1, snd cnt),
                logSync e (''Created Monday item: '' @ to_string (subject ticketData))
                  ''success'' st'))
      | Update itemId updateData \<Rightarrow>
          (case updateMondayItem e itemId updateData st of
             (Inl m, st') \<Rightarrow> (Inl m, st')
           | (Inr r, st') \<Rightarrow>
               (Inr (fst cnt, snd cnt + 1),
                logSync e (''Updated Monday item: ''
                    @ to_string (subject (h2m_ticketData t)) @ '' (''
                    @ join '', '' (Object_keys updateData) @ '')'')
                  ''info'' st'))
      | Skip \<Rightarrow> (Inr cnt, st))"

fun h2m_loop ::
  "'w env \<Rightarrow> (jsval \<rightharpoonup> item) \<Rightarrow> ticket list \<Rightarrow> nat \<times> nat \<Rightarrow> config \<times> 'w
     \<Rightarrow> (string + nat \<times> nat) \<times> (config \<times> 'w)" where
  "h2m_loop e mMap [] cnt st = (Inr cnt, st)"
| "h2m_loop e mMap (t # ts) cnt st =
     (case h2m_record e mMap t cnt st of
        (Inl m, st') \<Rightarrow> (Inl m, st')
      | (Inr cnt', st') \<Rightarrow> h2m_loop e mMap ts cnt' st')"

text \<open>The \<open>try\<close> block of \<open>syncHubSpotToMonday\<close>: \<open>Inl\<close> is what its \<open>catch\<close> receives.\<close>

definition h2m_try ::
  "'w env \<Rightarrow> config \<times> 'w \<Rightarrow> (string + nat \<times> nat) \<times> (config \<times> 'w)" where
  "h2m_try e st =
     (case getHubSpotTickets e
             (logSync e (''Starting HubSpot '' @ arrow @ '' Monday.com sync...'') ''info'' st) of
        (Inl m, st1) \<Rightarrow> (Inl m, st1)
      | (Inr tickets, st1) \<Rightarrow>
          (case getMondayItems e st1 of
             (Inl m, st2) \<Rightarrow> (Inl m, st2)
           | (Inr mondayItems, st2) \<Rightarrow>
               (case h2m_loop e (mondayMap mondayItems) tickets (0, 0) st2 of
                  (Inl m, st3) \<Rightarrow> (Inl m, st3)
                | (Inr cnt, st3) \<Rightarrow>
                    (case logSync e
                            (''HubSpot '' @ arrow @ '' Monday sync complete: ''
                               @ show_nat (fst cnt) @ '' created, ''
                               @ show_nat (snd cnt) @ '' updated'') ''success'' st3 of
                       (cfg4, w4) \<Rightarrow>
                         (Inr cnt, (cfg4\<lparr>lastSync := Some (date_now e w4)\<rparr>, w4))))))"

definition syncHubSpotToMonday :: "'w env \<Rightarrow> config \<times> 'w \<Rightarrow> config \<times> 'w" where
  "syncHubSpotToMonday e st =
     (if \<not> syncEnabled (fst st) then st
      else (case h2m_try e st of
              (Inl m, st') \<Rightarrow> logSync e (''Sync failed: '' @ m) ''error'' st'
            | (Inr cnt, st') \<Rightarrow> st'))"

subsection \<open>Monday to HubSpot\<close>

definition hubspotMap :: "ticket list \<Rightarrow> (jsval \<rightharpoonup> ticket)" where
  "hubspotMap hubspotTickets =
     foldl (\<lambda>m t. m(prop_subject (properties t) \<mapsto> t)) Map.empty hubspotTickets"

text \<open>\<open>col?.text\<close> of the result of \<open>column_values.find(...)\<close>\<close>

definition col_text_of :: "col option \<Rightarrow> jsval" where
  "col_text_of c = (case c of None \<Rightarrow> Undefined | Some c' \<Rightarrow> col_text c')"

definition m2h_itemData :: "config \<Rightarrow> item \<Rightarrow> fields" where
  "m2h_itemData cfg it =
     (let textCol = find (\<lambda>c. col_id c = m_description (fieldMapping cfg)) (column_values it);
          statusCol = find (\<lambda>c. col_id c = m_status (fieldMapping cfg)) (column_values it);
          priorityCol = find (\<lambda>c. col_id c = m_priority (fieldMapping cfg)) (column_values it)
      in \<lparr>subject = Str (name it),
          content = js_or (col_text_of textCol) (Str []),
          status = js_or (col_text_of statusCol) (Str ''new''),
          priority = js_or (col_text_of priorityCol) (Str ''MEDIUM'')\<rparr>)"

definition m2h_updateData :: "config \<Rightarrow> fields \<Rightarrow> obj" where
  "m2h_updateData cfg itemData =
     (let u0 = [];
          u1 = (if r_title (fieldRules cfg) = ''monday'' \<or> r_title (fieldRules cfg) = ''both''
                then obj_set u0 ''subject'' (subject itemData) else u0);
          u2 = (if r_description (fieldRules cfg) = ''monday''
                   \<or> r_description (fieldRules cfg) = ''both''
                then obj_set u1 ''content'' (content itemData) else u1);
          u3 = (if r_status (fieldRules cfg) = ''monday'' \<or> r_status (fieldRules cfg) = ''both''
                then obj_set u2 ''status'' (status itemData) else u2);
          u4 = (if r_priority (fieldRules cfg) = ''monday''
                   \<or> r_priority (fieldRules cfg) = ''both''
                then obj_set u3 ''priority'' (priority itemData) else u3)
      in u4)"

definition m2h_plan :: "config \<Rightarrow> (jsval \<rightharpoonup> ticket) \<Rightarrow> item \<Rightarrow> action" where
  "m2h_plan cfg hMap it =
     (let itemData = m2h_itemData cfg it
      in case hMap (subject itemData) of
           None \<Rightarrow> Create itemData
         | Some existingTicket \<Rightarrow>
             (let updateData = m2h_updateData cfg itemData
              in if length (Object_keys updateData) > 0
                 then Update (ticket_id existingTicket) updateData else Skip))"

definition m2h_record ::
  "'w env \<Rightarrow> (jsval \<rightharpoonup> ticket) \<Rightarrow> item \<Rightarrow> nat \<times> nat \<Rightarrow> config \<times> 'w
     \<Rightarrow> (string + nat \<times> nat) \<times> (config \<times> 'w)" where
  "m2h_record e hMap it cnt st =
     (case m2h_plan (fst st) hMap it of
        Create itemData \<Rightarrow>
          (case createHubSpotTicket e itemData st of
             (Inl m, st') \<Rightarrow> (Inl m, st')
           | (Inr r, st') \<Rightarrow>
               (Inr (fst cnt + 1, snd cnt),
                logSync e (''Created HubSpot ticket: '' @ to_string (subject itemData))
                  ''success'' st'))
      | Update ticketId updateData \<Rightarrow>
          (case updateHubSpotTicket e ticketId updateData st of
             (Inl m, st') \<Rightarrow> (Inl m, st')
           | (Inr r, st') \<Rightarrow>
               (Inr (fst cnt, snd cnt + 1),
                logSync e (''Updated HubSpot ticket: ''
                    @ to_string (subject (m2h_itemData (fst st) it)) @ '' (''
                    @ join '', '' (Object_keys updateData) @ '')'')
                  ''info'' st'))
      | Skip \<Rightarrow> (Inr cnt, st))"

fun m2h_loop ::
  "'w env \<Rightarrow> (jsval \<rightharpoonup> ticket) \<Rightarrow> item list \<Rightarrow> nat \<times> nat \<Rightarrow> config \<times> 'w
     \<Rightarrow> (string + nat \<times> nat) \<times> (config \<times> 'w)" where
  "m2h_loop e hMap [] cnt st = (Inr cnt, st)"
| "m2h_loop e hMap (it # its) cnt st =
     (case m2h_record e hMap it cnt st of
        (Inl m, st') \<Rightarrow> (Inl m, st')
      | (Inr cnt', st') \<Rightarrow> m2h_loop e hMap its cnt' st')"

definition m2h_try ::
  "'w env \<Rightarrow> config \<times> 'w \<Rightarrow> (string + nat \<times> nat) \<times> (config \<times> 'w)" where
  "m2h_try e st =
     (case getMondayItems e
             (logSync e (''Starting Monday.com '' @ arrow @ '' HubSpot sync...'') ''info'' st) of
        (Inl m, st1) \<Rightarrow> (Inl m, st1)
      | (Inr mondayItems, st1) \<Rightarrow>
          (case getHubSpotTickets e st1 of
             (Inl m, st2) \<Rightarrow> (Inl m, st2)
           | (Inr hubspotTickets, st2) \<Rightarrow>
               (case m2h_loop e (hubspotMap hubspotTickets) mondayItems (0, 0) st2 of
                  (Inl m, st3) \<Rightarrow> (Inl m, st3)
                | (Inr cnt, st3) \<Rightarrow>
                    (case logSync e
                            (''Monday '' @ arrow @ '' HubSpot sync complete: ''
                               @ show_nat (fst cnt) @ '' created, ''
                               @ show_nat (snd cnt) @ '' updated'') ''success'' st3 of
                       (cfg4, w4) \<Rightarrow>
                         (Inr cnt, (cfg4\<lparr>lastSync := Some (date_now e w4)\<rparr>, w4))))))"

definition syncMondayToHubSpot :: "'w env \<Rightarrow> config \<times> 'w \<Rightarrow> config \<times> 'w" where
  "syncMondayToHubSpot e st =
     (if \<not> syncEnabled (fst st) then st
      else (case m2h_try e st of
              (Inl m, st') \<Rightarrow> logSync e (''Sync failed: '' @ m) ''error'' st'
            | (Inr cnt, st') \<Rightarrow> st'))"

definition performFullSync :: "'w env \<Rightarrow> config \<times> 'w \<Rightarrow> config \<times> 'w" where
  "performFullSync e st = syncMondayToHubSpot e (syncHubSpotToMonday e st)"

section \<open>Entry points\<close>

text \<open>
  The handlers that start a pass. The two webhooks start theirs one second later
  (\<open>setTimeout\<close>) and \<open>POST /sync\<close> does not wait for its own; here each runs at once and
  to its end.
\<close>

definition post_enable :: "'w env \<Rightarrow> config \<times> 'w \<Rightarrow> config \<times> 'w" where
  "post_enable e st =
     logSync e ''Auto-sync enabled'' ''success'' ((fst st)\<lparr>syncEnabled := True\<rparr>, snd st)"

definition post_sync :: "'w env \<Rightarrow> config \<times> 'w \<Rightarrow> config \<times> 'w" where
  "post_sync e st = performFullSync e (logSync e ''Manual sync triggered'' ''info'' st)"

definition webhook_hubspot :: "'w env \<Rightarrow> config \<times> 'w \<Rightarrow> config \<times> 'w" where
  "webhook_hubspot e st =
     (if \<not> syncEnabled (fst st) then st
      else syncHubSpotToMonday e (logSync e ''HubSpot webhook received'' ''info'' st))"

definition webhook_monday :: "'w env \<Rightarrow> config \<times> 'w \<Rightarrow> config \<times> 'w" where
  "webhook_monday e st =
     (if \<not> syncEnabled (fst st) then st
      else syncMondayToHubSpot e (logSync e ''Monday.com webhook received'' ''info'' st))"

definition cron_tick :: "'w env \<Rightarrow> config \<times> 'w \<Rightarrow> config \<times> 'w" where
  "cron_tick e st =
     (if syncEnabled (fst st)
      then performFullSync e (logSync e ''Scheduled sync starting...'' ''info'' st)
      else st)"

section \<open>A reference remote\<close>

text \<open>
  A stand-in for the two platforms, to run the passes on: two stores that keep what they
  are sent, the list of the requests received so far, and the numbers of the requests
  (counted from 0) that are answered by a failure. A listing is one page: the first 100
  tickets (the \<open>limit\<close> of the request), and the first \<open>sim_page\<close> items of the board
  (the request names no limit: the page is the remote's). It is no part of the program.
\<close>

datatype request =
  GetTickets string
| PostTicket string obj
| PatchTicket string string obj
| MondayPost string mquery

record sim =
  sim_tickets :: "ticket list"
  sim_items :: "item list"
  sim_calls :: "request list"
  sim_failing :: "nat list"
  sim_page :: nat

definition sim_fails :: "sim \<Rightarrow> bool" where
  "sim_fails w = (length (sim_calls w) \<in> set (sim_failing w))"

definition sim_call :: "request \<Rightarrow> sim \<Rightarrow> sim" where
  "sim_call r w = w\<lparr>sim_calls := sim_calls w @ [r]\<rparr>"

text \<open>An id that is not in use: one character longer than the longest.\<close>

definition sim_fresh_id :: "string list \<Rightarrow> string" where
  "sim_fresh_id ids = replicate (Suc (foldr max (map length ids) 0)) (CHR ''n'')"

definition sim_new_ticket :: "sim \<Rightarrow> obj \<Rightarrow> ticket" where
  "sim_new_ticket w props =
     \<lparr>ticket_id = sim_fresh_id (map ticket_id (sim_tickets w)),
      properties = \<lparr>prop_subject = obj_get props ''subject'',
                    prop_content = obj_get props ''content'',
                    hs_pipeline_stage = obj_get props ''hs_pipeline_stage'',
                    hs_ticket_priority = obj_get props ''hs_ticket_priority''\<rparr>\<rparr>"

definition sim_patch :: "obj \<Rightarrow> ticket \<Rightarrow> ticket" where
  "sim_patch props t =
     t\<lparr>properties :=
         \<lparr>prop_subject = (case map_of props ''subject'' of
                            None \<Rightarrow> prop_subject (properties t) | Some v \<Rightarrow> v),
          prop_content = (case map_of props ''content'' of
                            None \<Rightarrow> prop_content (properties t) | Some v \<Rightarrow> v),
          hs_pipeline_stage = (case map_of props ''hs_pipeline_stage'' of
                                 None \<Rightarrow> hs_pipeline_stage (properties t) | Some v \<Rightarrow> v),
          hs_ticket_priority = (case map_of props ''hs_ticket_priority'' of
                                  None \<Rightarrow> hs_ticket_priority (properties t) | Some v \<Rightarrow> v)\<rparr>\<rparr>"

fun sim_set_col :: "col list \<Rightarrow> string \<Rightarrow> jsval \<Rightarrow> col list" where
  "sim_set_col [] k v = [\<lparr>col_id = k, col_text = v\<rparr>]"
| "sim_set_col (c # cs) k v =
     (if col_id c = k then c\<lparr>col_text := v\<rparr> # cs else c # sim_set_col cs k v)"

definition sim_change :: "obj \<Rightarrow> item \<Rightarrow> item" where
  "sim_change cv it =
     it\<lparr>column_values := foldl (\<lambda>cs kv. sim_set_col cs (fst kv) (snd kv)) (column_values it) cv\<rparr>"

definition sim_new_item :: "sim \<Rightarrow> string \<Rightarrow> obj \<Rightarrow> item" where
  "sim_new_item w nm cv =
     \<lparr>item_id = sim_fresh_id (map item_id (sim_items w)), name = nm,
      column_values = map (\<lambda>kv. \<lparr>col_id = fst kv, col_text = snd kv\<rparr>) cv\<rparr>"

definition sim_ok :: mresponse where
  "sim_ok = \<lparr>errors = None, answer_data = Given \<lparr>boards = Missing\<rparr>\<rparr>"

definition sim_refused :: mresponse where
  "sim_refused =
     \<lparr>errors = Some [''Variable $itemName of required type String! was not provided.''],
      answer_data = IsNull\<rparr>"

definition sim_hubspot_get :: "string \<Rightarrow> sim \<Rightarrow> (string + ticket list option) \<times> sim" where
  "sim_hubspot_get auth w =
     (if sim_fails w then (Inl ''Request failed with status code 500'', sim_call (GetTickets auth) w)
      else (Inr (Some (take 100 (sim_tickets w))), sim_call (GetTickets auth) w))"

definition sim_hubspot_post :: "string \<Rightarrow> obj \<Rightarrow> sim \<Rightarrow> (string + unit) \<times> sim" where
  "sim_hubspot_post auth props w =
     (if sim_fails w
      then (Inl ''Request failed with status code 500'', sim_call (PostTicket auth props) w)
      else (Inr (), (sim_call (PostTicket auth props) w)
                      \<lparr>sim_tickets := sim_tickets w @ [sim_new_ticket w props]\<rparr>))"

definition sim_hubspot_patch ::
  "string \<Rightarrow> string \<Rightarrow> obj \<Rightarrow> sim \<Rightarrow> (string + unit) \<times> sim" where
  "sim_hubspot_patch auth ticketId props w =
     (if sim_fails w
      then (Inl ''Request failed with status code 500'',
            sim_call (PatchTicket auth ticketId props) w)
      else (Inr (), (sim_call (PatchTicket auth ticketId props) w)
                      \<lparr>sim_tickets :=
                         map (\<lambda>t. if ticket_id t = ticketId then sim_patch props t else t)
                           (sim_tickets w)\<rparr>))"

definition sim_monday_post :: "string \<Rightarrow> mquery \<Rightarrow> sim \<Rightarrow> (string + mresponse) \<times> sim" where
  "sim_monday_post auth q w =
     (if sim_fails w
      then (Inl ''Request failed with status code 500'', sim_call (MondayPost auth q) w)
      else (case q of
              ItemsQuery b \<Rightarrow>
                (Inr \<lparr>errors = None,
                      answer_data = Given \<lparr>boards = Given [Some (take (sim_page w) (sim_items w))]\<rparr>\<rparr>,
                 sim_call (MondayPost auth q) w)
            | CreateItem b nm cv \<Rightarrow>
                (case nm of
                   Str s \<Rightarrow>
                     (Inr sim_ok, (sim_call (MondayPost auth q) w)
                                    \<lparr>sim_items := sim_items w @ [sim_new_item w s cv]\<rparr>)
                 | Undefined \<Rightarrow> (Inr sim_refused, sim_call (MondayPost auth q) w)
                 | Null \<Rightarrow> (Inr sim_refused, sim_call (MondayPost auth q) w))
            | ChangeColumns b itemId cv \<Rightarrow>
                (Inr sim_ok, (sim_call (MondayPost auth q) w)
                               \<lparr>sim_items :=
                                  map (\<lambda>it. if item_id it = itemId then sim_change cv it else it)
                                    (sim_items w)\<rparr>)))"

definition sim_env :: "sim env" where
  "sim_env =
     \<lparr>hubspot_get = sim_hubspot_get, hubspot_post = sim_hubspot_post,
      hubspot_patch = sim_hubspot_patch, monday_post = sim_monday_post,
      date_now = (\<lambda>w. show_nat (length (sim_calls w)))\<rparr>"


section \<open>Notions used to state the properties\<close>

text \<open>The message and the type of the \<open>n\<close> newest entries of the log, newest first.\<close>

definition newest :: "nat \<Rightarrow> config \<Rightarrow> (string \<times> string) list" where
  "newest n cfg = map (\<lambda>x. (message x, type x)) (take n (syncLog cfg))"

text \<open>
  What a run of the program adds to the log: \<open>l\<close> is the log \<open>old\<close> after the entries
  \<open>new\<close> (newest first) were logged, each \<open>logSync\<close> dropping the oldest entry once
  there are more than 50. And the entries of type \<open>error\<close> among some entries, as message
  and type.
\<close>

definition extends :: "logEntry list \<Rightarrow> logEntry list \<Rightarrow> logEntry list \<Rightarrow> bool" where
  "extends old new l = (l = take (max 50 (length old)) (new @ old))"

definition error_entries :: "logEntry list \<Rightarrow> (string \<times> string) list" where
  "error_entries l = map (\<lambda>x. (message x, type x)) (filter (\<lambda>x. type x = ''error'') l)"

text \<open>
  A run from \<open>st\<close> to \<open>st'\<close> has logged entries whose errors are \<open>errs\<close>, newest
  first.
\<close>

definition logs :: "config \<times> 'w \<Rightarrow> config \<times> 'w \<Rightarrow> (string \<times> string) list \<Rightarrow> bool" where
  "logs st st' errs =
     (\<exists>new. extends (syncLog (fst st)) new (syncLog (fst st')) \<and> error_entries new = errs)"

text \<open>
  The errors that a call returning \<open>r\<close> can have logged, when the calls it makes log
  what they throw under one of the prefixes \<open>ps\<close>: none when it returns; when it throws
  \<open>m\<close>, the one entry of the call that threw, or none when the error arose outside
  every such call.
\<close>

definition may_log :: "string list \<Rightarrow> string + 'a \<Rightarrow> (string \<times> string) list set" where
  "may_log ps r =
     (case r of
        Inl m \<Rightarrow> insert [] ((\<lambda>p. [(p @ m, ''error'')]) ` set ps)
      | Inr x \<Rightarrow> {[]})"

text \<open>The configuration with another rule and another Monday column for the assignee.\<close>

definition with_assignee :: "string \<Rightarrow> string \<Rightarrow> config \<Rightarrow> config" where
  "with_assignee rule column cfg =
     cfg\<lparr>fieldRules := (fieldRules cfg)\<lparr>r_assignee := rule\<rparr>,
         fieldMapping := (fieldMapping cfg)\<lparr>m_assignee := column\<rparr>\<rparr>"

text \<open>The same rule for each of the four fields.\<close>

definition all_rules :: "string \<Rightarrow> config \<Rightarrow> config" where
  "all_rules p cfg =
     cfg\<lparr>fieldRules := (fieldRules cfg)\<lparr>r_title := p, r_description := p,
                                          r_status := p, r_priority := p\<rparr>\<rparr>"

text \<open>
  On the reference remote: the names of the items on the board, in order, and the
  requests received so far that create a record.
\<close>

definition names :: "sim \<Rightarrow> string list" where
  "names w = map name (sim_items w)"

text \<open>And the subjects of the tickets in the store, in order.\<close>

definition subjects :: "sim \<Rightarrow> jsval list" where
  "subjects w = map (\<lambda>t. prop_subject (properties t)) (sim_tickets w)"

fun is_create :: "request \<Rightarrow> bool" where
  "is_create (MondayPost auth (CreateItem b nm cv)) = True"
| "is_create (PostTicket auth props) = True"
| "is_create r = False"

definition creates :: "sim \<Rightarrow> request list" where
  "creates w = filter is_create (sim_calls w)"

subsection \<open>Example data\<close>

definition ex_ticket :: "string \<Rightarrow> string \<Rightarrow> jsval \<Rightarrow> jsval \<Rightarrow> ticket" where
  "ex_ticket i s st pr =
     \<lparr>ticket_id = i,
      properties = \<lparr>prop_subject = Str s, prop_content = Str ''details'',
                    hs_pipeline_stage = st, hs_ticket_priority = pr\<rparr>\<rparr>"

definition ex_item :: "string \<Rightarrow> string \<Rightarrow> item" where
  "ex_item i s =
     \<lparr>item_id = i, name = s,
      column_values = [\<lparr>col_id = ''text'', col_text = Str ''notes''\<rparr>,
                       \<lparr>col_id = ''status'', col_text = Str ''Done''\<rparr>]\<rparr>"

definition ex_config :: config where
  "ex_config = (initial_config ''pat-na1'' ''eyJ'' ''1234567890'')\<lparr>syncEnabled := True\<rparr>"

text \<open>
  A remote with two tickets (the second with no stage), an empty board or one with the
  item of the first ticket, and the given requests failing.
\<close>

definition ex_world :: "item list \<Rightarrow> nat list \<Rightarrow> sim" where
  "ex_world its failing =
     \<lparr>sim_tickets = [ex_ticket ''101'' ''Bug 1'' (Str ''open'') (Str ''HIGH''),
                     ex_ticket ''102'' ''Bug 2'' Undefined Null],
      sim_items = its, sim_calls = [], sim_failing = failing, sim_page = 25\<rparr>"

text \<open>The same with a third ticket, and a remote with 100 tickets where nothing fails.\<close>

definition ex_world3 :: "item list \<Rightarrow> nat list \<Rightarrow> sim" where
  "ex_world3 its failing =
     (ex_world its failing)
       \<lparr>sim_tickets := sim_tickets (ex_world its failing)
                         @ [ex_ticket ''103'' ''Bug 3'' (Str ''open'') Null]\<rparr>"

definition ex_world100 :: "item list \<Rightarrow> sim" where
  "ex_world100 its =
     \<lparr>sim_tickets = map (\<lambda>n. ex_ticket (show_nat n) (''Ticket '' @ show_nat n) Null Null)
                       [0..<100],
      sim_items = its, sim_calls = [], sim_failing = [], sim_page = 25\<rparr>"

text \<open>
  A configuration in which the status is mapped onto the assignee's column, as
  \<open>POST /field-mapping\<close> sets it.
\<close>

definition ex_config_aliased :: config where
  "ex_config_aliased =
     ex_config\<lparr>fieldMapping := (fieldMapping ex_config)\<lparr>m_status := ''person''\<rparr>\<rparr>"

section \<open>Properties\<close>

subsection \<open>Objects\<close>

lemma array_index_fields:
  "array_index ''subject'' = None" "array_index ''content'' = None"
  "array_index ''status'' = None" "array_index ''priority'' = None"
  "array_index ''hs_pipeline_stage'' = None" "array_index ''hs_ticket_priority'' = None"
  by (simp_all add: array_index_def is_digit_def)

lemma obj_insert_plain: "array_index k = None \<Longrightarrow> obj_insert ob k v = ob @ [(k, v)]"
  by (induction ob) (auto simp: key_before_def)

lemma keys_obj_insert: "set (Object_keys (obj_insert ob k v)) = insert k (set (Object_keys ob))"
proof (induction ob)
  case Nil
  show ?case by (simp add: Object_keys_def)
next
  case (Cons kv ob)
  obtain k' v' where kv: "kv = (k', v')" by (cases kv)
  show ?case
  proof (cases "key_before k k'")
    case True
    then show ?thesis using kv by (simp add: Object_keys_def)
  next
    case False
    then show ?thesis using kv Cons.IH by (simp add: Object_keys_def insert_commute)
  qed
qed

lemma keys_obj_replace:
  "Object_keys (map (\<lambda>kv. if fst kv = k then (k, v) else kv) ob) = Object_keys ob"
  by (induction ob) (simp_all add: Object_keys_def)

lemma keys_obj_set: "set (Object_keys (obj_set ob k v)) = insert k (set (Object_keys ob))"
proof (cases "k \<in> fst ` set ob")
  case True
  then have "k \<in> set (Object_keys ob)" by (simp add: Object_keys_def)
  with True show ?thesis
    by (auto simp: obj_set_def keys_obj_replace)
next
  case False
  then show ?thesis by (simp add: obj_set_def keys_obj_insert)
qed

lemma Object_keys_Nil: "Object_keys [] = []"
  by (simp add: Object_keys_def)

lemma keys_obj_set_plain:
  "array_index k = None \<Longrightarrow> k \<notin> set (Object_keys ob) \<Longrightarrow>
     Object_keys (obj_set ob k v) = Object_keys ob @ [k]"
  by (simp add: obj_set_def obj_insert_plain Object_keys_def)

subsection \<open>The field set of an update\<close>

lemma keys_h2m_updateData:
  "Object_keys (h2m_updateData cfg td) =
     (if r_title (fieldRules cfg) = ''hubspot'' \<or> r_title (fieldRules cfg) = ''both''
      then [''subject''] else [])
   @ (if r_description (fieldRules cfg) = ''hubspot'' \<or> r_description (fieldRules cfg) = ''both''
      then [''content''] else [])
   @ (if r_status (fieldRules cfg) = ''hubspot'' \<or> r_status (fieldRules cfg) = ''both''
      then [''status''] else [])
   @ (if r_priority (fieldRules cfg) = ''hubspot'' \<or> r_priority (fieldRules cfg) = ''both''
      then [''priority''] else [])"
  by (cases "r_title (fieldRules cfg) = ''hubspot'' \<or> r_title (fieldRules cfg) = ''both''";
      cases "r_description (fieldRules cfg) = ''hubspot''
               \<or> r_description (fieldRules cfg) = ''both''";
      cases "r_status (fieldRules cfg) = ''hubspot'' \<or> r_status (fieldRules cfg) = ''both''";
      cases "r_priority (fieldRules cfg) = ''hubspot'' \<or> r_priority (fieldRules cfg) = ''both''";
      simp add: h2m_updateData_def Let_def keys_obj_set_plain array_index_fields
                Object_keys_Nil)

lemma keys_m2h_updateData:
  "Object_keys (m2h_updateData cfg idata) =
     (if r_title (fieldRules cfg) = ''monday'' \<or> r_title (fieldRules cfg) = ''both''
      then [''subject''] else [])
   @ (if r_description (fieldRules cfg) = ''monday'' \<or> r_description (fieldRules cfg) = ''both''
      then [''content''] else [])
   @ (if r_status (fieldRules cfg) = ''monday'' \<or> r_status (fieldRules cfg) = ''both''
      then [''status''] else [])
   @ (if r_priority (fieldRules cfg) = ''monday'' \<or> r_priority (fieldRules cfg) = ''both''
      then [''priority''] else [])"
  by (cases "r_title (fieldRules cfg) = ''monday'' \<or> r_title (fieldRules cfg) = ''both''";
      cases "r_description (fieldRules cfg) = ''monday''
               \<or> r_description (fieldRules cfg) = ''both''";
      cases "r_status (fieldRules cfg) = ''monday'' \<or> r_status (fieldRules cfg) = ''both''";
      cases "r_priority (fieldRules cfg) = ''monday'' \<or> r_priority (fieldRules cfg) = ''both''";
      simp add: m2h_updateData_def Let_def keys_obj_set_plain array_index_fields
                Object_keys_Nil)

lemma h2m_plan_matched:
  "mMap (prop_subject (properties t)) = Some it \<Longrightarrow>
   h2m_plan cfg mMap t =
     (if Object_keys (h2m_updateData cfg (h2m_ticketData t)) = [] then Skip
      else Update (item_id it) (h2m_updateData cfg (h2m_ticketData t)))"
  by (simp add: h2m_plan_def Let_def h2m_ticketData_def)

lemma m2h_plan_matched:
  "hMap (Str (name it)) = Some tk \<Longrightarrow>
   m2h_plan cfg hMap it =
     (if Object_keys (m2h_updateData cfg (m2h_itemData cfg it)) = [] then Skip
      else Update (ticket_id tk) (m2h_updateData cfg (m2h_itemData cfg it)))"
  by (simp add: m2h_plan_def Let_def m2h_itemData_def)

text \<open>
  C1. In each direction the keys of \<open>updateData\<close> are exactly the fields whose rule names
  the source platform or \<open>both\<close> (\<open>subject\<close> is the title, \<open>content\<close> the description),
  and this \<open>updateData\<close> is what the update of a matched record carries. In particular a
  status owned by Monday is never among the keys from HubSpot to Monday, and a status
  owned by HubSpot never among those from Monday to HubSpot.
\<close>

theorem update_fields_follow_policy:
  "(''subject'' \<in> set (Object_keys (h2m_updateData cfg td))
      \<longleftrightarrow> r_title (fieldRules cfg) = ''hubspot'' \<or> r_title (fieldRules cfg) = ''both'')
 \<and> (''content'' \<in> set (Object_keys (h2m_updateData cfg td))
      \<longleftrightarrow> r_description (fieldRules cfg) = ''hubspot''
          \<or> r_description (fieldRules cfg) = ''both'')
 \<and> (''status'' \<in> set (Object_keys (h2m_updateData cfg td))
      \<longleftrightarrow> r_status (fieldRules cfg) = ''hubspot'' \<or> r_status (fieldRules cfg) = ''both'')
 \<and> (''priority'' \<in> set (Object_keys (h2m_updateData cfg td))
      \<longleftrightarrow> r_priority (fieldRules cfg) = ''hubspot'' \<or> r_priority (fieldRules cfg) = ''both'')
 \<and> (''subject'' \<in> set (Object_keys (m2h_updateData cfg td))
      \<longleftrightarrow> r_title (fieldRules cfg) = ''monday'' \<or> r_title (fieldRules cfg) = ''both'')
 \<and> (''content'' \<in> set (Object_keys (m2h_updateData cfg td))
      \<longleftrightarrow> r_description (fieldRules cfg) = ''monday''
          \<or> r_description (fieldRules cfg) = ''both'')
 \<and> (''status'' \<in> set (Object_keys (m2h_updateData cfg td))
      \<longleftrightarrow> r_status (fieldRules cfg) = ''monday'' \<or> r_status (fieldRules cfg) = ''both'')
 \<and> (''priority'' \<in> set (Object_keys (m2h_updateData cfg td))
      \<longleftrightarrow> r_priority (fieldRules cfg) = ''monday'' \<or> r_priority (fieldRules cfg) = ''both'')
 \<and> (\<forall>i ud. h2m_plan cfg mMap t = Update i ud
        \<longrightarrow> ud = h2m_updateData cfg (h2m_ticketData t))
 \<and> (\<forall>i ud. m2h_plan cfg hMap it = Update i ud
        \<longrightarrow> ud = m2h_updateData cfg (m2h_itemData cfg it))
 \<and> (r_status (fieldRules cfg) = ''monday''
        \<longrightarrow> ''status'' \<notin> set (Object_keys (h2m_updateData cfg td)))
 \<and> (r_status (fieldRules cfg) = ''hubspot''
        \<longrightarrow> ''status'' \<notin> set (Object_keys (m2h_updateData cfg td)))"
proof -
  have plan1: "\<forall>i ud. h2m_plan cfg mMap t = Update i ud
        \<longrightarrow> ud = h2m_updateData cfg (h2m_ticketData t)"
    by (auto simp: h2m_plan_def Let_def split: option.splits if_splits)
  have plan2: "\<forall>i ud. m2h_plan cfg hMap it = Update i ud
        \<longrightarrow> ud = m2h_updateData cfg (m2h_itemData cfg it)"
    by (auto simp: m2h_plan_def Let_def split: option.splits if_splits)
  show ?thesis
    using plan1 plan2 by (simp add: keys_h2m_updateData keys_m2h_updateData)
qed

theorem update_fields_follow_policy_witness:
  "r_status (fieldRules ex_config) = ''monday''
 \<and> h2m_plan ex_config (mondayMap [ex_item ''7'' ''Bug 1''])
      (ex_ticket ''101'' ''Bug 1'' (Str ''open'') (Str ''HIGH''))
    = Update ''7'' [(''subject'', Str ''Bug 1''), (''content'', Str ''details'')]
 \<and> ''status'' \<notin> set (Object_keys (h2m_updateData ex_config
      (h2m_ticketData (ex_ticket ''101'' ''Bug 1'' (Str ''open'') (Str ''HIGH'')))))
 \<and> r_status (fieldRules (all_rules ''hubspot'' ex_config)) = ''hubspot''
 \<and> m2h_plan (all_rules ''monday'' ex_config)
      (hubspotMap [ex_ticket ''101'' ''Bug 1'' (Str ''open'') (Str ''HIGH'')])
      (ex_item ''7'' ''Bug 1'')
    = Update ''101'' [(''subject'', Str ''Bug 1''), (''content'', Str ''notes''),
                      (''status'', Str ''Done''), (''priority'', Str ''MEDIUM'')]
 \<and> ''status'' \<notin> set (Object_keys (m2h_updateData (all_rules ''hubspot'' ex_config)
      (m2h_itemData ex_config (ex_item ''7'' ''Bug 1''))))"
proof -
  let ?t = "ex_ticket ''101'' ''Bug 1'' (Str ''open'') (Str ''HIGH'')"
  let ?i = "ex_item ''7'' ''Bug 1''"
  have c1: "r_status (fieldRules ex_config) = ''monday''" by code_simp
  have c2: "h2m_plan ex_config (mondayMap [?i]) ?t
              = Update ''7'' [(''subject'', Str ''Bug 1''), (''content'', Str ''details'')]"
    by code_simp
  have c3: "r_status (fieldRules (all_rules ''hubspot'' ex_config)) = ''hubspot''"
    by code_simp
  have c4: "m2h_plan (all_rules ''monday'' ex_config) (hubspotMap [?t]) ?i
              = Update ''101'' [(''subject'', Str ''Bug 1''), (''content'', Str ''notes''),
                                (''status'', Str ''Done''), (''priority'', Str ''MEDIUM'')]"
    by code_simp
  from update_fields_follow_policy [of ex_config "h2m_ticketData ?t"] c1
  have c5: "''status'' \<notin> set (Object_keys (h2m_updateData ex_config (h2m_ticketData ?t)))"
    by blast
  from update_fields_follow_policy
         [of "all_rules ''hubspot'' ex_config" "m2h_itemData ex_config ?i"] c3
  have c6: "''status'' \<notin> set (Object_keys (m2h_updateData (all_rules ''hubspot'' ex_config)
              (m2h_itemData ex_config ?i)))"
    by blast
  show ?thesis
    by (intro conjI) (fact c1, fact c2, fact c5, fact c3, fact c4, fact c6)
qed

subsection \<open>The index of the target records\<close>

lemma mondayMap_snoc: "mondayMap (xs @ [a]) = (mondayMap xs)(Str (name a) \<mapsto> a)"
  by (simp add: mondayMap_def)

lemma mondayMap_find: "mondayMap its k = find (\<lambda>it. Str (name it) = k) (rev its)"
proof (induction its rule: rev_induct)
  case Nil
  show ?case by (simp add: mondayMap_def)
next
  case (snoc a its)
  then show ?case by (simp add: mondayMap_snoc)
qed

lemma hubspotMap_snoc:
  "hubspotMap (xs @ [a]) = (hubspotMap xs)(prop_subject (properties a) \<mapsto> a)"
  by (simp add: hubspotMap_def)

lemma hubspotMap_find:
  "hubspotMap ts k = find (\<lambda>t. prop_subject (properties t) = k) (rev ts)"
proof (induction ts rule: rev_induct)
  case Nil
  show ?case by (simp add: hubspotMap_def)
next
  case (snoc a ts)
  then show ?case by (simp add: hubspotMap_snoc)
qed

lemma find_Some_sound: "find P xs = Some x \<Longrightarrow> P x \<and> x \<in> set xs"
  by (induction xs) (auto split: if_splits)

lemma find_rev_last:
  "P b \<Longrightarrow> \<forall>z\<in>set zs. \<not> P z \<Longrightarrow> find P (rev (xs @ b # zs)) = Some b"
  by (induction zs rule: rev_induct) auto

text \<open>
  C4. When two records of the target snapshot have the same identity key, the index
  built from the snapshot maps the key to the later one (\<open>b\<close>, with no record of that key
  after it), and a source record of that key is matched with \<open>b\<close>: its update goes to the
  id of \<open>b\<close>. A key is found only under the very string it was stored under. The index is
  built once, before the loop, and the loop only reads it.
\<close>

theorem index_keeps_last_duplicate:
  assumes "name a = name b" and "\<forall>z\<in>set zs. name z \<noteq> name b"
    and "prop_subject (properties ta) = prop_subject (properties tb)"
    and "\<forall>z\<in>set tzs. prop_subject (properties z) \<noteq> prop_subject (properties tb)"
  shows "mondayMap (xs @ a # ys @ b # zs) (Str (name a)) = Some b
       \<and> (prop_subject (properties t) = Str (name a) \<longrightarrow>
            h2m_plan cfg (mondayMap (xs @ a # ys @ b # zs)) t =
              (if Object_keys (h2m_updateData cfg (h2m_ticketData t)) = [] then Skip
               else Update (item_id b) (h2m_updateData cfg (h2m_ticketData t))))
       \<and> hubspotMap (txs @ ta # tys @ tb # tzs) (prop_subject (properties ta)) = Some tb
       \<and> (Str (name it) = prop_subject (properties ta) \<longrightarrow>
            m2h_plan cfg (hubspotMap (txs @ ta # tys @ tb # tzs)) it =
              (if Object_keys (m2h_updateData cfg (m2h_itemData cfg it)) = [] then Skip
               else Update (ticket_id tb) (m2h_updateData cfg (m2h_itemData cfg it))))
       \<and> (\<forall>k r. mondayMap its k = Some r \<longrightarrow> k = Str (name r) \<and> r \<in> set its)
       \<and> (\<forall>k r. hubspotMap ts k = Some r \<longrightarrow> k = prop_subject (properties r) \<and> r \<in> set ts)"
proof -
  have m: "mondayMap (xs @ a # ys @ b # zs) (Str (name a)) = Some b"
    using assms(1,2) find_rev_last [of "\<lambda>it. Str (name it) = Str (name a)" b zs "xs @ a # ys"]
    by (simp add: mondayMap_find)
  have h: "hubspotMap (txs @ ta # tys @ tb # tzs) (prop_subject (properties ta)) = Some tb"
    using assms(3,4)
      find_rev_last [of "\<lambda>t. prop_subject (properties t) = prop_subject (properties ta)"
                        tb tzs "txs @ ta # tys"]
    by (simp add: hubspotMap_find)
  have e1: "\<forall>k r. mondayMap its k = Some r \<longrightarrow> k = Str (name r) \<and> r \<in> set its"
    by (auto simp: mondayMap_find dest: find_Some_sound)
  have e2: "\<forall>k r. hubspotMap ts k = Some r \<longrightarrow> k = prop_subject (properties r) \<and> r \<in> set ts"
    by (auto simp: hubspotMap_find dest: find_Some_sound)
  have p1: "prop_subject (properties t) = Str (name a) \<longrightarrow>
            h2m_plan cfg (mondayMap (xs @ a # ys @ b # zs)) t =
              (if Object_keys (h2m_updateData cfg (h2m_ticketData t)) = [] then Skip
               else Update (item_id b) (h2m_updateData cfg (h2m_ticketData t)))"
    using m h2m_plan_matched [of "mondayMap (xs @ a # ys @ b # zs)" t b cfg] by auto
  have p2: "Str (name it) = prop_subject (properties ta) \<longrightarrow>
            m2h_plan cfg (hubspotMap (txs @ ta # tys @ tb # tzs)) it =
              (if Object_keys (m2h_updateData cfg (m2h_itemData cfg it)) = [] then Skip
               else Update (ticket_id tb) (m2h_updateData cfg (m2h_itemData cfg it)))"
    using h m2h_plan_matched [of "hubspotMap (txs @ ta # tys @ tb # tzs)" it tb cfg] by auto
  from m h e1 e2 p1 p2 show ?thesis by blast
qed

theorem index_keeps_last_duplicate_witness:
  "name (ex_item ''7'' ''X'') = name (ex_item ''9'' ''X'')
 \<and> prop_subject (properties (ex_ticket ''101'' ''X'' Null Null))
     = prop_subject (properties (ex_ticket ''103'' ''X'' Null Null))
 \<and> mondayMap ([] @ ex_item ''7'' ''X'' # [ex_item ''8'' ''x''] @ ex_item ''9'' ''X''
                 # [ex_item ''10'' ''X ''])
      (Str (name (ex_item ''7'' ''X''))) = Some (ex_item ''9'' ''X'')
 \<and> hubspotMap ([] @ ex_ticket ''101'' ''X'' Null Null # [ex_ticket ''102'' ''x'' Null Null]
                  @ ex_ticket ''103'' ''X'' Null Null # [])
      (prop_subject (properties (ex_ticket ''101'' ''X'' Null Null)))
     = Some (ex_ticket ''103'' ''X'' Null Null)"
proof -
  have h1: "name (ex_item ''7'' ''X'') = name (ex_item ''9'' ''X'')"
    by (simp add: ex_item_def)
  have h2: "\<forall>z\<in>set [ex_item ''10'' ''X '']. name z \<noteq> name (ex_item ''9'' ''X'')"
    by (simp add: ex_item_def)
  have h3: "prop_subject (properties (ex_ticket ''101'' ''X'' Null Null))
              = prop_subject (properties (ex_ticket ''103'' ''X'' Null Null))"
    by (simp add: ex_ticket_def)
  have h4: "\<forall>z\<in>set []. prop_subject (properties z)
              \<noteq> prop_subject (properties (ex_ticket ''103'' ''X'' Null Null))"
    by simp
  note T = index_keeps_last_duplicate
             [where a = "ex_item ''7'' ''X''" and b = "ex_item ''9'' ''X''"
                and zs = "[ex_item ''10'' ''X '']"
                and ta = "ex_ticket ''101'' ''X'' Null Null"
                and tb = "ex_ticket ''103'' ''X'' Null Null" and tzs = "[]"
                and xs = "[]" and ys = "[ex_item ''8'' ''x'']"
                and txs = "[]" and tys = "[ex_ticket ''102'' ''x'' Null Null]",
              OF h1 h2 h3 h4]
  from T h1 h3 show ?thesis by blast
qed
subsection \<open>Skipping an empty update\<close>

text \<open>
  C9. For a matched record whose \<open>updateData\<close> has no key, the turn of the loop decides
  \<open>Skip\<close>: it calls nothing, logs nothing, leaves both counters as they are and throws
  nothing. The keys are missing exactly when no rule names the source or \<open>both\<close>. An
  update that is decided always has a key.
\<close>

theorem empty_update_is_skipped:
  assumes "mMap (prop_subject (properties t)) = Some mi"
    and "Object_keys (h2m_updateData (fst st) (h2m_ticketData t)) = []"
    and "hMap (Str (name it)) = Some tk"
    and "Object_keys (m2h_updateData (fst st') (m2h_itemData (fst st') it)) = []"
  shows "h2m_plan (fst st) mMap t = Skip
       \<and> h2m_record e mMap t cnt st = (Inr cnt, st)
       \<and> m2h_plan (fst st') hMap it = Skip
       \<and> m2h_record e hMap it cnt st' = (Inr cnt, st')
       \<and> (\<forall>i ud. h2m_plan cfg mMap' t' = Update i ud \<longrightarrow> Object_keys ud \<noteq> [])
       \<and> (\<forall>i ud. m2h_plan cfg hMap' it' = Update i ud \<longrightarrow> Object_keys ud \<noteq> [])
       \<and> (Object_keys (h2m_updateData cfg td) = [] \<longleftrightarrow>
            r_title (fieldRules cfg) \<notin> {''hubspot'', ''both''}
          \<and> r_description (fieldRules cfg) \<notin> {''hubspot'', ''both''}
          \<and> r_status (fieldRules cfg) \<notin> {''hubspot'', ''both''}
          \<and> r_priority (fieldRules cfg) \<notin> {''hubspot'', ''both''})
       \<and> (Object_keys (m2h_updateData cfg td) = [] \<longleftrightarrow>
            r_title (fieldRules cfg) \<notin> {''monday'', ''both''}
          \<and> r_description (fieldRules cfg) \<notin> {''monday'', ''both''}
          \<and> r_status (fieldRules cfg) \<notin> {''monday'', ''both''}
          \<and> r_priority (fieldRules cfg) \<notin> {''monday'', ''both''})"
proof -
  have a: "h2m_plan (fst st) mMap t = Skip"
    using assms(1,2) by (simp add: h2m_plan_matched)
  have b: "m2h_plan (fst st') hMap it = Skip"
    using assms(3,4) by (simp add: m2h_plan_matched)
  have c: "\<forall>i ud. h2m_plan cfg mMap' t' = Update i ud \<longrightarrow> Object_keys ud \<noteq> []"
    by (auto simp: h2m_plan_def Let_def split: option.splits if_splits)
  have d: "\<forall>i ud. m2h_plan cfg hMap' it' = Update i ud \<longrightarrow> Object_keys ud \<noteq> []"
    by (auto simp: m2h_plan_def Let_def split: option.splits if_splits)
  have k1: "Object_keys (h2m_updateData cfg td) = [] \<longleftrightarrow>
            r_title (fieldRules cfg) \<notin> {''hubspot'', ''both''}
          \<and> r_description (fieldRules cfg) \<notin> {''hubspot'', ''both''}
          \<and> r_status (fieldRules cfg) \<notin> {''hubspot'', ''both''}
          \<and> r_priority (fieldRules cfg) \<notin> {''hubspot'', ''both''}"
    by (simp add: keys_h2m_updateData)
  have k2: "Object_keys (m2h_updateData cfg td) = [] \<longleftrightarrow>
            r_title (fieldRules cfg) \<notin> {''monday'', ''both''}
          \<and> r_description (fieldRules cfg) \<notin> {''monday'', ''both''}
          \<and> r_status (fieldRules cfg) \<notin> {''monday'', ''both''}
          \<and> r_priority (fieldRules cfg) \<notin> {''monday'', ''both''}"
    by (simp add: keys_m2h_updateData)
  from a b c d k1 k2 show ?thesis
    by (simp add: h2m_record_def m2h_record_def)
qed

theorem empty_update_is_skipped_witness:
  "mondayMap [ex_item ''7'' ''Bug 1''] (prop_subject (properties (ex_ticket ''101'' ''Bug 1'' Null Null)))
     = Some (ex_item ''7'' ''Bug 1'')
 \<and> Object_keys (h2m_updateData (all_rules ''monday'' ex_config)
       (h2m_ticketData (ex_ticket ''101'' ''Bug 1'' Null Null))) = []
 \<and> hubspotMap [ex_ticket ''101'' ''Bug 1'' Null Null] (Str (name (ex_item ''7'' ''Bug 1'')))
     = Some (ex_ticket ''101'' ''Bug 1'' Null Null)
 \<and> Object_keys (m2h_updateData (all_rules ''hubspot'' ex_config)
       (m2h_itemData (all_rules ''hubspot'' ex_config) (ex_item ''7'' ''Bug 1''))) = []
 \<and> h2m_record sim_env (mondayMap [ex_item ''7'' ''Bug 1'']) (ex_ticket ''101'' ''Bug 1'' Null Null)
      (0, 0) (all_rules ''monday'' ex_config, ex_world [ex_item ''7'' ''Bug 1''] [])
     = (Inr (0, 0), (all_rules ''monday'' ex_config, ex_world [ex_item ''7'' ''Bug 1''] []))
 \<and> m2h_record sim_env (hubspotMap [ex_ticket ''101'' ''Bug 1'' Null Null]) (ex_item ''7'' ''Bug 1'')
      (0, 0) (all_rules ''hubspot'' ex_config, ex_world [ex_item ''7'' ''Bug 1''] [])
     = (Inr (0, 0), (all_rules ''hubspot'' ex_config, ex_world [ex_item ''7'' ''Bug 1''] []))"
proof -
  have h1: "mondayMap [ex_item ''7'' ''Bug 1'']
              (prop_subject (properties (ex_ticket ''101'' ''Bug 1'' Null Null)))
            = Some (ex_item ''7'' ''Bug 1'')"
    by (simp add: mondayMap_def ex_item_def ex_ticket_def)
  have h2: "Object_keys (h2m_updateData (fst (all_rules ''monday'' ex_config, ex_world [ex_item ''7'' ''Bug 1''] []))
       (h2m_ticketData (ex_ticket ''101'' ''Bug 1'' Null Null))) = []"
    by (simp add: keys_h2m_updateData all_rules_def)
  have h3: "hubspotMap [ex_ticket ''101'' ''Bug 1'' Null Null] (Str (name (ex_item ''7'' ''Bug 1'')))
     = Some (ex_ticket ''101'' ''Bug 1'' Null Null)"
    by (simp add: hubspotMap_def ex_item_def ex_ticket_def)
  have h4: "Object_keys (m2h_updateData (fst (all_rules ''hubspot'' ex_config, ex_world [ex_item ''7'' ''Bug 1''] []))
       (m2h_itemData (fst (all_rules ''hubspot'' ex_config, ex_world [ex_item ''7'' ''Bug 1''] [])) (ex_item ''7'' ''Bug 1''))) = []"
    by (simp add: keys_m2h_updateData all_rules_def)
  show ?thesis
    using h1 h2 h3 h4
      empty_update_is_skipped
        [where mMap = "mondayMap [ex_item ''7'' ''Bug 1'']"
           and t = "ex_ticket ''101'' ''Bug 1'' Null Null" and mi = "ex_item ''7'' ''Bug 1''"
           and st = "(all_rules ''monday'' ex_config, ex_world [ex_item ''7'' ''Bug 1''] [])"
           and hMap = "hubspotMap [ex_ticket ''101'' ''Bug 1'' Null Null]"
           and it = "ex_item ''7'' ''Bug 1''" and tk = "ex_ticket ''101'' ''Bug 1'' Null Null"
           and st' = "(all_rules ''hubspot'' ex_config, ex_world [ex_item ''7'' ''Bug 1''] [])"
           and e = sim_env and cnt = "(0, 0)"]
    unfolding fst_conv by blast
qed

subsection \<open>What a call leaves in the log\<close>

lemma snd_logSync: "snd (logSync e msg ty st) = snd st"
  by (cases st) (simp add: logSync_def Let_def)

lemma logSync_frame: "(fst (logSync e msg ty st))\<lparr>syncLog := l\<rparr> = (fst st)\<lparr>syncLog := l\<rparr>"
  by (cases st) (simp add: logSync_def Let_def)

lemma newest_logSync1: "newest (Suc 0) (fst (logSync e msg ty st)) = [(msg, ty)]"
  by (cases st) (simp add: logSync_def Let_def newest_def)

















lemma may_log_Inr: "may_log ps (Inr x) = {[]}"
  by (simp add: may_log_def)

lemma may_log_Inl: "may_log ps (Inl m) = insert [] ((\<lambda>p. [(p @ m, ''error'')]) ` set ps)"
  by (simp add: may_log_def)














lemma logs_Inr: "logs st st' [] \<Longrightarrow> \<exists>errs\<in>may_log ps (Inr x). logs st st' errs"
  by (simp add: may_log_Inr)


lemma logs_Inl: 
  "\<exists>errs\<in>may_log ps (Inl m :: string + 'a). logs st st' errs \<Longrightarrow>
   \<exists>errs\<in>may_log ps (Inl m :: string + 'b). logs st st' errs"
  by (simp add: may_log_Inl)











subsection \<open>The loop ends at the first error\<close>

lemma h2m_loop_append:
  "h2m_loop e mMap xs cnt st = (Inr cnt1, st1) \<Longrightarrow>
   h2m_loop e mMap (xs @ ys) cnt st = h2m_loop e mMap ys cnt1 st1"
  by (induction xs arbitrary: cnt st) (auto split: prod.splits sum.splits)

lemma m2h_loop_append:
  "m2h_loop e hMap xs cnt st = (Inr cnt1, st1) \<Longrightarrow>
   m2h_loop e hMap (xs @ ys) cnt st = m2h_loop e hMap ys cnt1 st1"
  by (induction xs arbitrary: cnt st) (auto split: prod.splits sum.splits)

subsection \<open>A record that cannot be applied\<close>

text \<open>
  C2, as the program has it. When the call for a record throws, the error leaves the
  loop and reaches the one \<open>catch\<close> of the pass: the pass ends in the state the failing
  call left, plus the entry \<open>Sync failed\<close>. So the records after it (\<open>ys\<close>) are not
  attempted, the summary is not logged and \<open>lastSync\<close> is not set; what was applied for
  the records before it (\<open>xs\<close>) stays.
\<close>

theorem record_failure_ends_pass:
  assumes "syncEnabled (fst st)"
    and "getHubSpotTickets e
           (logSync e (''Starting HubSpot '' @ arrow @ '' Monday.com sync...'') ''info'' st)
         = (Inr (xs @ t # ys), st1)"
    and "getMondayItems e st1 = (Inr mondayItems, st2)"
    and "h2m_loop e (mondayMap mondayItems) xs (0, 0) st2 = (Inr cnt, st3)"
    and "h2m_record e (mondayMap mondayItems) t cnt st3 = (Inl m, st4)"
    and "syncEnabled (fst su)"
    and "getMondayItems e
           (logSync e (''Starting Monday.com '' @ arrow @ '' HubSpot sync...'') ''info'' su)
         = (Inr (is @ i # js), su1)"
    and "getHubSpotTickets e su1 = (Inr hubspotTickets, su2)"
    and "m2h_loop e (hubspotMap hubspotTickets) is (0, 0) su2 = (Inr cnu, su3)"
    and "m2h_record e (hubspotMap hubspotTickets) i cnu su3 = (Inl n, su4)"
  shows "syncHubSpotToMonday e st = logSync e (''Sync failed: '' @ m) ''error'' st4
       \<and> syncMondayToHubSpot e su = logSync e (''Sync failed: '' @ n) ''error'' su4"
proof -
  have "h2m_loop e (mondayMap mondayItems) (xs @ t # ys) (0, 0) st2 = (Inl m, st4)"
    using assms(4,5) by (simp add: h2m_loop_append)
  then have a: "syncHubSpotToMonday e st = logSync e (''Sync failed: '' @ m) ''error'' st4"
    using assms(1,2,3) by (simp add: syncHubSpotToMonday_def h2m_try_def)
  have "m2h_loop e (hubspotMap hubspotTickets) (is @ i # js) (0, 0) su2 = (Inl n, su4)"
    using assms(9,10) by (simp add: m2h_loop_append)
  then have b: "syncMondayToHubSpot e su = logSync e (''Sync failed: '' @ n) ''error'' su4"
    using assms(6,7,8) by (simp add: syncMondayToHubSpot_def m2h_try_def)
  from a b show ?thesis by simp
qed

text \<open>
  On the reference remote, with the two tickets \<open>Bug 1\<close> and \<open>Bug 2\<close>, an empty board and
  the third request (the creation of \<open>Bug 1\<close>) failing: nothing is requested for \<open>Bug 2\<close>.
\<close>

theorem record_failure_counterexample:
  "sim_calls (snd (syncHubSpotToMonday sim_env (ex_config, ex_world [] [2]))) =
     [GetTickets ''Bearer pat-na1'',
      MondayPost ''eyJ'' (ItemsQuery ''1234567890''),
      MondayPost ''eyJ'' (CreateItem ''1234567890'' (Str ''Bug 1'')
        [(''text'', Str ''details''), (''status'', Str ''open''), (''priority'', Str ''HIGH'')])]
 \<and> sim_items (snd (syncHubSpotToMonday sim_env (ex_config, ex_world [] [2]))) = []
 \<and> newest 2 (fst (syncHubSpotToMonday sim_env (ex_config, ex_world [] [2]))) =
     [(''Sync failed: Request failed with status code 500'', ''error''),
      (''Monday.com API error: Request failed with status code 500'', ''error'')]"
  by code_simp

text \<open>
  The theorem at work, with a record before and a record after the one that fails. With
  the tickets \<open>Bug 1\<close>, \<open>Bug 2\<close>, \<open>Bug 3\<close> and an empty board, the creation of \<open>Bug 2\<close>
  fails after \<open>Bug 1\<close> was created; with the three items of these names on the board,
  the update of the second ticket fails after the first was applied. In both passes
  nothing is requested for \<open>Bug 3\<close>, the pass ends with \<open>Sync failed\<close>, \<open>lastSync\<close>
  is not set and the first record's change is on the remote.
\<close>

theorem record_failure_ends_pass_witness:
  "syncEnabled (fst (ex_config, ex_world3 [] [3]))
 \<and> newest 1 (fst (syncHubSpotToMonday sim_env (ex_config, ex_world3 [] [3])))
      = [(''Sync failed: Request failed with status code 500'', ''error'')]
 \<and> sim_calls (snd (syncHubSpotToMonday sim_env (ex_config, ex_world3 [] [3])))
      = [GetTickets ''Bearer pat-na1'',
         MondayPost ''eyJ'' (ItemsQuery ''1234567890''),
         MondayPost ''eyJ'' (CreateItem ''1234567890'' (Str ''Bug 1'')
           [(''text'', Str ''details''), (''status'', Str ''open''),
            (''priority'', Str ''HIGH'')]),
         MondayPost ''eyJ'' (CreateItem ''1234567890'' (Str ''Bug 2'')
           [(''text'', Str ''details'')])]
 \<and> names (snd (syncHubSpotToMonday sim_env (ex_config, ex_world3 [] [3]))) = [''Bug 1'']
 \<and> lastSync (fst (syncHubSpotToMonday sim_env (ex_config, ex_world3 [] [3]))) = None
 \<and> newest 1 (fst (syncMondayToHubSpot sim_env
      (ex_config, ex_world3 [ex_item ''7'' ''Bug 1'', ex_item ''8'' ''Bug 2'',
                             ex_item ''9'' ''Bug 3''] [3])))
      = [(''Sync failed: Request failed with status code 500'', ''error'')]
 \<and> sim_calls (snd (syncMondayToHubSpot sim_env
      (ex_config, ex_world3 [ex_item ''7'' ''Bug 1'', ex_item ''8'' ''Bug 2'',
                             ex_item ''9'' ''Bug 3''] [3])))
      = [MondayPost ''eyJ'' (ItemsQuery ''1234567890''),
         GetTickets ''Bearer pat-na1'',
         PatchTicket ''Bearer pat-na1'' ''101''
           [(''hs_pipeline_stage'', Str ''Done''), (''hs_ticket_priority'', Str ''MEDIUM'')],
         PatchTicket ''Bearer pat-na1'' ''102''
           [(''hs_pipeline_stage'', Str ''Done''), (''hs_ticket_priority'', Str ''MEDIUM'')]]
 \<and> map (\<lambda>t. hs_pipeline_stage (properties t)) (sim_tickets (snd (syncMondayToHubSpot sim_env
      (ex_config, ex_world3 [ex_item ''7'' ''Bug 1'', ex_item ''8'' ''Bug 2'',
                             ex_item ''9'' ''Bug 3''] [3]))))
      = [Str ''Done'', Undefined, Str ''open'']
 \<and> lastSync (fst (syncMondayToHubSpot sim_env
      (ex_config, ex_world3 [ex_item ''7'' ''Bug 1'', ex_item ''8'' ''Bug 2'',
                             ex_item ''9'' ''Bug 3''] [3]))) = None"
proof -
  let ?s = "(ex_config, ex_world3 [] [3])"
  let ?sa = "logSync sim_env (''Starting HubSpot '' @ arrow @ '' Monday.com sync...'') ''info'' ?s"
  let ?sb = "snd (getHubSpotTickets sim_env ?sa)"
  let ?sc = "snd (getMondayItems sim_env ?sb)"
  let ?ta = "ex_ticket ''101'' ''Bug 1'' (Str ''open'') (Str ''HIGH'')"
  let ?tb = "ex_ticket ''102'' ''Bug 2'' Undefined Null"
  let ?tc = "ex_ticket ''103'' ''Bug 3'' (Str ''open'') Null"
  let ?sd = "snd (h2m_loop sim_env (mondayMap []) [?ta] (0, 0) ?sc)"
  let ?se = "snd (h2m_record sim_env (mondayMap []) ?tb (1, 0) ?sd)"
  let ?ia = "ex_item ''7'' ''Bug 1''"
  let ?ib = "ex_item ''8'' ''Bug 2''"
  let ?ic = "ex_item ''9'' ''Bug 3''"
  let ?u = "(ex_config, ex_world3 [?ia, ?ib, ?ic] [3])"
  let ?ua = "logSync sim_env (''Starting Monday.com '' @ arrow @ '' HubSpot sync...'') ''info'' ?u"
  let ?ub = "snd (getMondayItems sim_env ?ua)"
  let ?uc = "snd (getHubSpotTickets sim_env ?ub)"
  let ?ud = "snd (m2h_loop sim_env (hubspotMap [?ta, ?tb, ?tc]) [?ia] (0, 0) ?uc)"
  let ?ue = "snd (m2h_record sim_env (hubspotMap [?ta, ?tb, ?tc]) ?ib (0, 1) ?ud)"
  let ?m = "''Request failed with status code 500''"
  have h1: "syncEnabled (fst ?s)" by code_simp
  have h2: "getHubSpotTickets sim_env ?sa = (Inr ([?ta] @ ?tb # [?tc]), ?sb)"
    by code_simp
  have h3: "getMondayItems sim_env ?sb = (Inr [], ?sc)"
    by code_simp
  have h4: "h2m_loop sim_env (mondayMap []) [?ta] (0, 0) ?sc = (Inr (1, 0), ?sd)"
    by code_simp
  have h5: "h2m_record sim_env (mondayMap []) ?tb (1, 0) ?sd = (Inl ?m, ?se)"
    by code_simp
  have h6: "syncEnabled (fst ?u)" by code_simp
  have h7: "getMondayItems sim_env ?ua = (Inr ([?ia] @ ?ib # [?ic]), ?ub)"
    by code_simp
  have h8: "getHubSpotTickets sim_env ?ub = (Inr [?ta, ?tb, ?tc], ?uc)"
    by code_simp
  have h9: "m2h_loop sim_env (hubspotMap [?ta, ?tb, ?tc]) [?ia] (0, 0) ?uc
              = (Inr (0, 1), ?ud)"
    by code_simp
  have h10: "m2h_record sim_env (hubspotMap [?ta, ?tb, ?tc]) ?ib (0, 1) ?ud = (Inl ?m, ?ue)"
    by code_simp
  note T = record_failure_ends_pass [OF h1 h2 h3 h4 h5 h6 h7 h8 h9 h10]
  have c1: "newest 1 (fst (logSync sim_env (''Sync failed: '' @ ?m) ''error'' ?se))
            = [(''Sync failed: Request failed with status code 500'', ''error'')]"
    using newest_logSync1 [of sim_env _ _ ?se] by simp
  have c2: "sim_calls (snd ?se)
      = [GetTickets ''Bearer pat-na1'',
         MondayPost ''eyJ'' (ItemsQuery ''1234567890''),
         MondayPost ''eyJ'' (CreateItem ''1234567890'' (Str ''Bug 1'')
           [(''text'', Str ''details''), (''status'', Str ''open''),
            (''priority'', Str ''HIGH'')]),
         MondayPost ''eyJ'' (CreateItem ''1234567890'' (Str ''Bug 2'')
           [(''text'', Str ''details'')])]"
    by code_simp
  have c3: "names (snd ?se) = [''Bug 1'']"
    by code_simp
  have c4: "lastSync (fst ?se) = None"
    by code_simp
  have c5: "newest 1 (fst (logSync sim_env (''Sync failed: '' @ ?m) ''error'' ?ue))
            = [(''Sync failed: Request failed with status code 500'', ''error'')]"
    using newest_logSync1 [of sim_env _ _ ?ue] by simp
  have c6: "sim_calls (snd ?ue)
      = [MondayPost ''eyJ'' (ItemsQuery ''1234567890''),
         GetTickets ''Bearer pat-na1'',
         PatchTicket ''Bearer pat-na1'' ''101''
           [(''hs_pipeline_stage'', Str ''Done''), (''hs_ticket_priority'', Str ''MEDIUM'')],
         PatchTicket ''Bearer pat-na1'' ''102''
           [(''hs_pipeline_stage'', Str ''Done''), (''hs_ticket_priority'', Str ''MEDIUM'')]]"
    by code_simp
  have c7: "map (\<lambda>t. hs_pipeline_stage (properties t)) (sim_tickets (snd ?ue))
              = [Str ''Done'', Undefined, Str ''open'']"
    by code_simp
  have c8: "lastSync (fst ?ue) = None"
    by code_simp
  have f: "lastSync (fst (logSync sim_env msg ty s)) = lastSync (fst s)" for msg ty s
    by (cases s) (simp add: logSync_def Let_def)
  from T h1 c1 c2 c3 c4 c5 c6 c7 c8 show ?thesis
    by (simp only: snd_logSync f)
qed


subsection \<open>A snapshot that cannot be fetched\<close>

lemma getHubSpotTickets_frame:
  "(fst (snd (getHubSpotTickets e st)))\<lparr>syncLog := l\<rparr> = (fst st)\<lparr>syncLog := l\<rparr>"
  by (cases st)
     (auto simp: getHubSpotTickets_def logSync_frame split: prod.splits sum.splits)

lemma mondayQuery_frame:
  "(fst (snd (mondayQuery e q st)))\<lparr>syncLog := l\<rparr> = (fst st)\<lparr>syncLog := l\<rparr>"
  by (cases st)
     (auto simp: mondayQuery_def logSync_frame Let_def
           split: prod.splits sum.splits option.splits)

lemma getMondayItems_frame:
  "(fst (snd (getMondayItems e st)))\<lparr>syncLog := l\<rparr> = (fst st)\<lparr>syncLog := l\<rparr>"
  using mondayQuery_frame [where e = e and q = "ItemsQuery (mondayBoardId (fst st))"
                             and st = st and l = l]
  by (auto simp: getMondayItems_def split: prod.splits sum.splits)

text \<open>
  C5. When \<open>getHubSpotTickets\<close> or \<open>getMondayItems\<close> throws in a pass, the pass returns
  (nothing is thrown to its caller): it ends in the state the failing fetch left, with
  the entry \<open>Sync failed\<close> of type \<open>error\<close> added; no record is processed. Apart from the
  log the configuration is as before, so \<open>lastSync\<close> is not set and sync stays enabled for
  the passes to come. \<open>performFullSync\<close> goes on with the other direction from there. The
  same holds for a fetch that fails in the pass from Monday to HubSpot.
\<close>

theorem fetch_failure_aborts_one_direction:
  assumes "syncEnabled (fst st)"
    and "getHubSpotTickets e
           (logSync e (''Starting HubSpot '' @ arrow @ '' Monday.com sync...'') ''info'' st)
           = (Inl m, st')
       \<or> (\<exists>ts st1. getHubSpotTickets e
             (logSync e (''Starting HubSpot '' @ arrow @ '' Monday.com sync...'') ''info'' st)
             = (Inr ts, st1) \<and> getMondayItems e st1 = (Inl m, st'))"
    and "syncEnabled (fst su)"
    and "getMondayItems e
           (logSync e (''Starting Monday.com '' @ arrow @ '' HubSpot sync...'') ''info'' su)
           = (Inl n, su')
       \<or> (\<exists>its su1. getMondayItems e
             (logSync e (''Starting Monday.com '' @ arrow @ '' HubSpot sync...'') ''info'' su)
             = (Inr its, su1) \<and> getHubSpotTickets e su1 = (Inl n, su'))"
  shows "syncHubSpotToMonday e st = logSync e (''Sync failed: '' @ m) ''error'' st'
       \<and> performFullSync e st
           = syncMondayToHubSpot e (logSync e (''Sync failed: '' @ m) ''error'' st')
       \<and> (fst (syncHubSpotToMonday e st))\<lparr>syncLog := []\<rparr> = (fst st)\<lparr>syncLog := []\<rparr>
       \<and> newest 1 (fst (syncHubSpotToMonday e st)) = [(''Sync failed: '' @ m, ''error'')]
       \<and> snd (syncHubSpotToMonday e st) = snd st'
       \<and> syncMondayToHubSpot e su = logSync e (''Sync failed: '' @ n) ''error'' su'
       \<and> (fst (syncMondayToHubSpot e su))\<lparr>syncLog := []\<rparr> = (fst su)\<lparr>syncLog := []\<rparr>
       \<and> newest 1 (fst (syncMondayToHubSpot e su)) = [(''Sync failed: '' @ n, ''error'')]
       \<and> snd (syncMondayToHubSpot e su) = snd su'"
proof -
  let ?s0 = "logSync e (''Starting HubSpot '' @ arrow @ '' Monday.com sync...'') ''info'' st"
  let ?u0 = "logSync e (''Starting Monday.com '' @ arrow @ '' HubSpot sync...'') ''info'' su"
  have a: "syncHubSpotToMonday e st = logSync e (''Sync failed: '' @ m) ''error'' st'"
    using assms(1,2) by (auto simp: syncHubSpotToMonday_def h2m_try_def)
  have fr: "(fst st')\<lparr>syncLog := []\<rparr> = (fst st)\<lparr>syncLog := []\<rparr>"
  proof -
    from assms(2) show ?thesis
    proof
      assume "getHubSpotTickets e ?s0 = (Inl m, st')"
      then have "st' = snd (getHubSpotTickets e ?s0)" by simp
      then show ?thesis by (simp add: getHubSpotTickets_frame logSync_frame)
    next
      assume "\<exists>ts st1. getHubSpotTickets e ?s0 = (Inr ts, st1)
                \<and> getMondayItems e st1 = (Inl m, st')"
      then obtain ts st1 where "getHubSpotTickets e ?s0 = (Inr ts, st1)"
        and "getMondayItems e st1 = (Inl m, st')" by blast
      then have "st1 = snd (getHubSpotTickets e ?s0)" and "st' = snd (getMondayItems e st1)"
        by simp_all
      then show ?thesis
        by (simp add: getMondayItems_frame getHubSpotTickets_frame logSync_frame)
    qed
  qed
  have b: "syncMondayToHubSpot e su = logSync e (''Sync failed: '' @ n) ''error'' su'"
    using assms(3,4) by (auto simp: syncMondayToHubSpot_def m2h_try_def)
  have fr': "(fst su')\<lparr>syncLog := []\<rparr> = (fst su)\<lparr>syncLog := []\<rparr>"
  proof -
    from assms(4) show ?thesis
    proof
      assume "getMondayItems e ?u0 = (Inl n, su')"
      then have "su' = snd (getMondayItems e ?u0)" by simp
      then show ?thesis by (simp add: getMondayItems_frame logSync_frame)
    next
      assume "\<exists>its su1. getMondayItems e ?u0 = (Inr its, su1)
                \<and> getHubSpotTickets e su1 = (Inl n, su')"
      then obtain its su1 where "getMondayItems e ?u0 = (Inr its, su1)"
        and "getHubSpotTickets e su1 = (Inl n, su')" by blast
      then have "su1 = snd (getMondayItems e ?u0)" and "su' = snd (getHubSpotTickets e su1)"
        by simp_all
      then show ?thesis
        by (simp add: getMondayItems_frame getHubSpotTickets_frame logSync_frame)
    qed
  qed
  from a b fr fr' show ?thesis
    by (simp add: performFullSync_def logSync_frame newest_logSync1 snd_logSync)
qed

text \<open>
  On the reference remote with the first request failing: the pass from HubSpot to
  Monday ends at its first fetch, and \<open>performFullSync\<close> still runs the pass from
  Monday to HubSpot, which completes and sets \<open>lastSync\<close>.
\<close>

theorem fetch_failure_aborts_one_direction_witness:
  "syncEnabled (fst (ex_config, ex_world [ex_item ''7'' ''Bug 1''] [0]))
 \<and> newest 2 (fst (syncHubSpotToMonday sim_env (ex_config, ex_world [ex_item ''7'' ''Bug 1''] [0])))
     = [(''Sync failed: Request failed with status code 500'', ''error''),
        (''Error fetching HubSpot tickets: Request failed with status code 500'', ''error'')]
 \<and> sim_calls (snd (syncHubSpotToMonday sim_env (ex_config, ex_world [ex_item ''7'' ''Bug 1''] [0])))
     = [GetTickets ''Bearer pat-na1'']
 \<and> lastSync (fst (syncHubSpotToMonday sim_env (ex_config, ex_world [ex_item ''7'' ''Bug 1''] [0])))
     = None
 \<and> performFullSync sim_env (ex_config, ex_world [ex_item ''7'' ''Bug 1''] [0])
     = syncMondayToHubSpot sim_env
         (syncHubSpotToMonday sim_env (ex_config, ex_world [ex_item ''7'' ''Bug 1''] [0]))
 \<and> newest 1 (fst (performFullSync sim_env (ex_config, ex_world [ex_item ''7'' ''Bug 1''] [0])))
     = [(''Monday '' @ arrow @ '' HubSpot sync complete: 0 created, 1 updated'', ''success'')]
 \<and> lastSync (fst (performFullSync sim_env (ex_config, ex_world [ex_item ''7'' ''Bug 1''] [0])))
     = Some ''4''
 \<and> newest 2 (fst (syncMondayToHubSpot sim_env (ex_config, ex_world [] [1])))
     = [(''Sync failed: Request failed with status code 500'', ''error''),
        (''Error fetching HubSpot tickets: Request failed with status code 500'', ''error'')]"
proof -
  let ?s = "(ex_config, ex_world [ex_item ''7'' ''Bug 1''] [0])"
  let ?sa = "logSync sim_env (''Starting HubSpot '' @ arrow @ '' Monday.com sync...'') ''info'' ?s"
  let ?sb = "snd (getHubSpotTickets sim_env ?sa)"
  let ?u = "(ex_config, ex_world [] [1])"
  let ?ua = "logSync sim_env (''Starting Monday.com '' @ arrow @ '' HubSpot sync...'') ''info'' ?u"
  let ?ub = "snd (getMondayItems sim_env ?ua)"
  let ?uc = "snd (getHubSpotTickets sim_env ?ub)"
  let ?m = "''Request failed with status code 500''"
  have h1: "syncEnabled (fst ?s)" by code_simp
  have h2': "getHubSpotTickets sim_env ?sa = (Inl ?m, ?sb)" by code_simp
  then have h2: "getHubSpotTickets sim_env ?sa = (Inl ?m, ?sb)
       \<or> (\<exists>ts st1. getHubSpotTickets sim_env ?sa = (Inr ts, st1)
             \<and> getMondayItems sim_env st1 = (Inl ?m, ?sb))" by (rule disjI1)
  have h3: "syncEnabled (fst ?u)" by code_simp
  have h4a: "getMondayItems sim_env ?ua = (Inr [], ?ub)" by code_simp
  have h4b: "getHubSpotTickets sim_env ?ub = (Inl ?m, ?uc)" by code_simp
  from h4a h4b have h4: "getMondayItems sim_env ?ua = (Inl ?m, ?uc)
       \<or> (\<exists>its su1. getMondayItems sim_env ?ua = (Inr its, su1)
             \<and> getHubSpotTickets sim_env su1 = (Inl ?m, ?uc))" by blast
  note T = fetch_failure_aborts_one_direction [OF h1 h2 h3 h4]
  have c1: "newest 2 (fst (syncHubSpotToMonday sim_env ?s))
     = [(''Sync failed: Request failed with status code 500'', ''error''),
        (''Error fetching HubSpot tickets: Request failed with status code 500'', ''error'')]"
    by code_simp
  have c2: "sim_calls (snd (syncHubSpotToMonday sim_env ?s)) = [GetTickets ''Bearer pat-na1'']"
    by code_simp
  have c3: "lastSync (fst (syncHubSpotToMonday sim_env ?s)) = None"
    by code_simp
  have c4: "newest 1 (fst (performFullSync sim_env ?s))
     = [(''Monday '' @ arrow @ '' HubSpot sync complete: 0 created, 1 updated'', ''success'')]"
    by code_simp
  have c5: "lastSync (fst (performFullSync sim_env ?s)) = Some ''4''"
    by code_simp
  have c6: "newest 2 (fst (syncMondayToHubSpot sim_env ?u))
     = [(''Sync failed: Request failed with status code 500'', ''error''),
        (''Error fetching HubSpot tickets: Request failed with status code 500'', ''error'')]"
    by code_simp
  have c7: "performFullSync sim_env ?s = syncMondayToHubSpot sim_env (syncHubSpotToMonday sim_env ?s)"
    using T by (simp only: performFullSync_def)
  from h1 c1 c2 c3 c4 c5 c6 c7 show ?thesis by blast
qed

subsection \<open>What gates a pass\<close>

text \<open>
  C8, as the program has it. The only gate of a pass is \<open>syncEnabled\<close>: while it is off,
  the timer, the two webhooks and \<open>POST /sync\<close> call nothing, whatever the credentials
  are (the world is untouched for every environment), and only \<open>POST /sync\<close> writes its
  log entry. No entry point looks at the two tokens or the board id.
\<close>

theorem disabled_sync_calls_nothing:
  assumes "\<not> syncEnabled (fst st)"
  shows "cron_tick e st = st
       \<and> webhook_hubspot e st = st
       \<and> webhook_monday e st = st
       \<and> syncHubSpotToMonday e st = st
       \<and> syncMondayToHubSpot e st = st
       \<and> performFullSync e st = st
       \<and> post_sync e st = logSync e ''Manual sync triggered'' ''info'' st
       \<and> snd (post_sync e st) = snd st"
proof -
  have l: "\<not> syncEnabled (fst (logSync e msg ty st))" for msg ty
    using assms by (cases st) (simp add: logSync_def Let_def)
  show ?thesis
    using assms l
    by (simp add: cron_tick_def webhook_hubspot_def webhook_monday_def post_sync_def
          performFullSync_def syncHubSpotToMonday_def syncMondayToHubSpot_def snd_logSync)
qed

theorem disabled_sync_calls_nothing_witness:
  "\<not> syncEnabled (fst (initial_config [] [] [], ex_world [] []))
 \<and> cron_tick sim_env (initial_config [] [] [], ex_world [] [])
     = (initial_config [] [] [], ex_world [] [])
 \<and> sim_calls (snd (post_sync sim_env (initial_config [] [] [], ex_world [] []))) = []"
proof -
  have h: "\<not> syncEnabled (fst (initial_config [] [] [], ex_world [] []))"
    by (simp add: initial_config_def)
  have c: "sim_calls (snd (initial_config [] [] [], ex_world [] [])) = []"
    by (simp add: ex_world_def)
  from disabled_sync_calls_nothing [OF h, of sim_env] h c show ?thesis
    by (simp add: snd_logSync)
qed

text \<open>
  With no credential at all (the three environment variables unset) and sync enabled
  by \<open>POST /enable\<close>, the timer starts a full sync: both snapshots are requested with
  empty credentials, and the items are created on the board with the empty id.
\<close>

theorem pass_without_credentials_counterexample:
  "hubspotToken (fst (post_enable sim_env (initial_config [] [] [], ex_world [] []))) = []
 \<and> mondayToken (fst (post_enable sim_env (initial_config [] [] [], ex_world [] []))) = []
 \<and> mondayBoardId (fst (post_enable sim_env (initial_config [] [] [], ex_world [] []))) = []
 \<and> take 4 (sim_calls (snd (cron_tick sim_env
       (post_enable sim_env (initial_config [] [] [], ex_world [] [])))))
   = [GetTickets ''Bearer '',
      MondayPost [] (ItemsQuery []),
      MondayPost [] (CreateItem [] (Str ''Bug 1'')
        [(''text'', Str ''details''), (''status'', Str ''open''), (''priority'', Str ''HIGH'')]),
      MondayPost [] (CreateItem [] (Str ''Bug 2'') [(''text'', Str ''details'')])]"
  by code_simp

subsection \<open>The error entries of a failed pass\<close>




subsection \<open>Creating a record\<close>

lemma truthy_js_or: "truthy d \<Longrightarrow> truthy (js_or a d)"
  by (simp add: js_or_def)

text \<open>
  A source record with no match is created from all four of its fields, whatever the
  rules are. From Monday to HubSpot the title is the item's name and the four properties
  are always sent, a missing or empty status or priority as \<open>new\<close> or \<open>MEDIUM\<close>. From
  HubSpot to Monday a description, status or priority is a key of the column values only
  when it is there and not empty.
\<close>

lemma unmatched_record_is_created:
  assumes "mMap (prop_subject (properties t)) = None" and "hMap (Str (name it)) = None"
  shows "h2m_plan (cfg\<lparr>fieldRules := r\<rparr>) mMap t = Create (h2m_ticketData t)
       \<and> set (Object_keys (createMondayItem_columnValues cfg td)) =
           (if truthy (content td) \<and> m_description (fieldMapping cfg) \<noteq> []
            then {m_description (fieldMapping cfg)} else {})
         \<union> (if truthy (status td) \<and> m_status (fieldMapping cfg) \<noteq> []
            then {m_status (fieldMapping cfg)} else {})
         \<union> (if truthy (priority td) \<and> m_priority (fieldMapping cfg) \<noteq> []
            then {m_priority (fieldMapping cfg)} else {})
       \<and> m2h_plan (cfg\<lparr>fieldRules := r\<rparr>) hMap it = Create (m2h_itemData cfg it)
       \<and> subject (m2h_itemData cfg it) = Str (name it)
       \<and> truthy (status (m2h_itemData cfg it)) \<and> truthy (priority (m2h_itemData cfg it))
       \<and> createHubSpotTicket_properties d =
           [(''subject'', subject d), (''content'', content d),
            (''hs_pipeline_stage'', if truthy (status d) then status d else Str ''new''),
            (''hs_ticket_priority'', if truthy (priority d) then priority d else Str ''MEDIUM'')]"
proof -
  have a: "h2m_plan (cfg\<lparr>fieldRules := r\<rparr>) mMap t = Create (h2m_ticketData t)"
    using assms(1) by (simp add: h2m_plan_def Let_def h2m_ticketData_def)
  have b: "m2h_plan (cfg\<lparr>fieldRules := r\<rparr>) hMap it = Create (m2h_itemData cfg it)"
    using assms(2) by (simp add: m2h_plan_def Let_def m2h_itemData_def)
  have c: "set (Object_keys (createMondayItem_columnValues cfg td)) =
           (if truthy (content td) \<and> m_description (fieldMapping cfg) \<noteq> []
            then {m_description (fieldMapping cfg)} else {})
         \<union> (if truthy (status td) \<and> m_status (fieldMapping cfg) \<noteq> []
            then {m_status (fieldMapping cfg)} else {})
         \<union> (if truthy (priority td) \<and> m_priority (fieldMapping cfg) \<noteq> []
            then {m_priority (fieldMapping cfg)} else {})"
    by (auto simp: createMondayItem_columnValues_def Let_def keys_obj_set Object_keys_Nil)
  have f: "truthy (status (m2h_itemData cfg it)) \<and> truthy (priority (m2h_itemData cfg it))
         \<and> subject (m2h_itemData cfg it) = Str (name it)"
    by (simp add: m2h_itemData_def Let_def truthy_js_or)
  have g: "createHubSpotTicket_properties d =
           [(''subject'', subject d), (''content'', content d),
            (''hs_pipeline_stage'', if truthy (status d) then status d else Str ''new''),
            (''hs_ticket_priority'', if truthy (priority d) then priority d else Str ''MEDIUM'')]"
    by (simp add: createHubSpotTicket_properties_def js_or_def)
  from a b c f g show ?thesis by blast
qed

text \<open>
  C3: where the program departs from it. The ticket \<open>Bug 2\<close> has no stage and no
  priority, and there is no item of that name. The pass decides to create it with its
  four fields, and \<open>createMondayItem\<close> sends the description only: no status and no
  priority, no default either. The other copy of \<open>createMondayItem\<close> sends the defaults
  \<open>New\<close> and \<open>Medium\<close> for the same ticket, and \<open>createHubSpotTicket\<close> sends \<open>new\<close> and
  \<open>MEDIUM\<close> for an item that lacks them. With no description either, nothing is sent
  where the other copy sends the empty string.
\<close>

theorem create_without_status_sends_no_default:
  "h2m_plan ex_config (mondayMap []) (ex_ticket ''102'' ''Bug 2'' Undefined Null)
     = Create \<lparr>subject = Str ''Bug 2'', content = Str ''details'',
               status = Undefined, priority = Null\<rparr>
 \<and> createMondayItem_columnValues ex_config
       \<lparr>subject = Str ''Bug 2'', content = Str ''details'', status = Undefined, priority = Null\<rparr>
     = [(''text'', Str ''details'')]
 \<and> sim_calls (snd (snd (createMondayItem sim_env
       \<lparr>subject = Str ''Bug 2'', content = Str ''details'', status = Undefined, priority = Null\<rparr>
       (ex_config, ex_world [] []))))
     = [MondayPost ''eyJ'' (CreateItem ''1234567890'' (Str ''Bug 2'') [(''text'', Str ''details'')])]
 \<and> createMondayItem_columnValues_part_000
       \<lparr>subject = Str ''Bug 2'', content = Str ''details'', status = Undefined, priority = Null\<rparr>
     = [(''text'', Str ''details''), (''status'', Str ''New''), (''priority'', Str ''Medium'')]
 \<and> createHubSpotTicket_properties
       \<lparr>subject = Str ''Bug 2'', content = Str ''details'', status = Undefined, priority = Null\<rparr>
     = [(''subject'', Str ''Bug 2''), (''content'', Str ''details''),
        (''hs_pipeline_stage'', Str ''new''), (''hs_ticket_priority'', Str ''MEDIUM'')]
 \<and> createMondayItem_columnValues ex_config
       \<lparr>subject = Str ''Bug 2'', content = Undefined, status = Undefined, priority = Null\<rparr>
     = []
 \<and> createMondayItem_columnValues_part_000
       \<lparr>subject = Str ''Bug 2'', content = Undefined, status = Undefined, priority = Null\<rparr>
     = [(''text'', Str []), (''status'', Str ''New''), (''priority'', Str ''Medium'')]"
  by code_simp



subsection \<open>The assignee\<close>

text \<open>Every step of a pass does the same under another assignee rule and column.\<close>

lemma wa_logSync:
  "logSync e msg ty (apfst (with_assignee a b) st)
     = apfst (with_assignee a b) (logSync e msg ty st)"
  by (cases st) (simp add: logSync_def Let_def with_assignee_def)

lemma wa_getHubSpotTickets:
  "getHubSpotTickets e (apfst (with_assignee a b) st)
     = apsnd (apfst (with_assignee a b)) (getHubSpotTickets e st)"
proof (cases st)
  case (Pair cfg w)
  have t: "hubspotToken (with_assignee a b cfg) = hubspotToken cfg"
    by (simp add: with_assignee_def)
  show ?thesis
    using wa_logSync [of e _ _ a b "(cfg, w')" for w']
    by (simp add: Pair getHubSpotTickets_def t split: prod.splits sum.splits)
qed

lemma wa_createHubSpotTicket:
  "createHubSpotTicket e d (apfst (with_assignee a b) st)
     = apsnd (apfst (with_assignee a b)) (createHubSpotTicket e d st)"
proof (cases st)
  case (Pair cfg w)
  have t: "hubspotToken (with_assignee a b cfg) = hubspotToken cfg"
    by (simp add: with_assignee_def)
  show ?thesis
    using wa_logSync [of e _ _ a b "(cfg, w')" for w']
    by (simp add: Pair createHubSpotTicket_def t split: prod.splits sum.splits)
qed

lemma wa_updateHubSpotTicket:
  "updateHubSpotTicket e i d (apfst (with_assignee a b) st)
     = apsnd (apfst (with_assignee a b)) (updateHubSpotTicket e i d st)"
proof (cases st)
  case (Pair cfg w)
  have t: "hubspotToken (with_assignee a b cfg) = hubspotToken cfg"
    by (simp add: with_assignee_def)
  show ?thesis
    using wa_logSync [of e _ _ a b "(cfg, w')" for w']
    by (simp add: Pair updateHubSpotTicket_def t split: prod.splits sum.splits)
qed

lemma wa_mondayQuery:
  "mondayQuery e q (apfst (with_assignee a b) st)
     = apsnd (apfst (with_assignee a b)) (mondayQuery e q st)"
proof (cases st)
  case (Pair cfg w)
  have t: "mondayToken (with_assignee a b cfg) = mondayToken cfg"
    by (simp add: with_assignee_def)
  show ?thesis
    using wa_logSync [of e _ _ a b "(cfg, w')" for w']
    by (simp add: Pair mondayQuery_def t Let_def split: prod.splits sum.splits option.splits)
qed

lemma wa_mondayBoardId: "mondayBoardId (with_assignee a b cfg) = mondayBoardId cfg"
  by (simp add: with_assignee_def)

lemma case_apsnd:
  assumes "\<And>r s. k r (g s) = apsnd g (k' r s)"
  shows "(case apsnd g p of (Inl m, s) \<Rightarrow> (Inl m, s) | (Inr r, s) \<Rightarrow> k r s)
       = apsnd g (case p of (Inl m, s) \<Rightarrow> (Inl m, s) | (Inr r, s) \<Rightarrow> k' r s)"
proof (cases p)
  case (Pair x s)
  then show ?thesis by (cases x) (simp_all add: assms)
qed

lemma wa_getMondayItems:
  "getMondayItems e (apfst (with_assignee a b) st)
     = apsnd (apfst (with_assignee a b)) (getMondayItems e st)"
  unfolding getMondayItems_def
  by (simp add: wa_mondayBoardId wa_mondayQuery) (rule case_apsnd, simp split: sum.splits)

lemma wa_mapping:
  "m_description (fieldMapping (with_assignee a b cfg)) = m_description (fieldMapping cfg)"
  "m_status (fieldMapping (with_assignee a b cfg)) = m_status (fieldMapping cfg)"
  "m_priority (fieldMapping (with_assignee a b cfg)) = m_priority (fieldMapping cfg)"
  by (simp_all add: with_assignee_def)

lemma wa_rules:
  "r_title (fieldRules (with_assignee a b cfg)) = r_title (fieldRules cfg)"
  "r_description (fieldRules (with_assignee a b cfg)) = r_description (fieldRules cfg)"
  "r_status (fieldRules (with_assignee a b cfg)) = r_status (fieldRules cfg)"
  "r_priority (fieldRules (with_assignee a b cfg)) = r_priority (fieldRules cfg)"
  by (simp_all add: with_assignee_def)

lemma wa_createMondayItem_columnValues:
  "createMondayItem_columnValues (with_assignee a b cfg) td
     = createMondayItem_columnValues cfg td"
  by (simp only: createMondayItem_columnValues_def wa_mapping)

lemma wa_updateMondayItem_columnValues:
  "updateMondayItem_columnValues (with_assignee a b cfg) ud
     = updateMondayItem_columnValues cfg ud"
  by (simp only: updateMondayItem_columnValues_def wa_mapping)

lemma wa_createMondayItem:
  "createMondayItem e td (apfst (with_assignee a b) st)
     = apsnd (apfst (with_assignee a b)) (createMondayItem e td st)"
  unfolding createMondayItem_def
  by (simp add: wa_mondayBoardId wa_createMondayItem_columnValues wa_mondayQuery)
     (rule case_apsnd, simp split: sum.splits)

lemma wa_updateMondayItem:
  "updateMondayItem e i ud (apfst (with_assignee a b) st)
     = apsnd (apfst (with_assignee a b)) (updateMondayItem e i ud st)"
  unfolding updateMondayItem_def
  by (simp add: wa_mondayBoardId wa_updateMondayItem_columnValues wa_mondayQuery)
     (rule case_apsnd, simp split: sum.splits)

lemma wa_h2m_plan: "h2m_plan (with_assignee a b cfg) mMap t = h2m_plan cfg mMap t"
  by (simp only: h2m_plan_def h2m_updateData_def wa_rules)

lemma wa_m2h_itemData: "m2h_itemData (with_assignee a b cfg) it = m2h_itemData cfg it"
  by (simp only: m2h_itemData_def wa_mapping)

lemma wa_m2h_plan: "m2h_plan (with_assignee a b cfg) hMap it = m2h_plan cfg hMap it"
  by (simp only: m2h_plan_def m2h_updateData_def wa_m2h_itemData wa_rules)

lemma wa_h2m_record:
  "h2m_record e mMap t cnt (apfst (with_assignee a b) st)
     = apsnd (apfst (with_assignee a b)) (h2m_record e mMap t cnt st)"
proof (cases "h2m_plan (fst st) mMap t")
  case (Create td)
  then show ?thesis
    unfolding h2m_record_def
    by (simp add: wa_h2m_plan wa_createMondayItem) (rule case_apsnd, simp add: wa_logSync)
next
  case (Update i ud)
  then show ?thesis
    unfolding h2m_record_def
    by (simp add: wa_h2m_plan wa_updateMondayItem) (rule case_apsnd, simp add: wa_logSync)
next
  case Skip
  then show ?thesis
    by (simp add: h2m_record_def wa_h2m_plan)
qed

lemma wa_m2h_record:
  "m2h_record e hMap it cnt (apfst (with_assignee a b) st)
     = apsnd (apfst (with_assignee a b)) (m2h_record e hMap it cnt st)"
proof (cases "m2h_plan (fst st) hMap it")
  case (Create d)
  then show ?thesis
    unfolding m2h_record_def
    by (simp add: wa_m2h_plan wa_createHubSpotTicket) (rule case_apsnd, simp add: wa_logSync)
next
  case (Update i ud)
  then show ?thesis
    unfolding m2h_record_def
    by (simp add: wa_m2h_plan wa_m2h_itemData wa_updateHubSpotTicket)
       (rule case_apsnd, simp add: wa_logSync wa_m2h_itemData)
next
  case Skip
  then show ?thesis
    by (simp add: m2h_record_def wa_m2h_plan)
qed

lemma wa_h2m_loop:
  "h2m_loop e mMap ts cnt (apfst (with_assignee a b) st)
     = apsnd (apfst (with_assignee a b)) (h2m_loop e mMap ts cnt st)"
proof (induction ts arbitrary: cnt st)
  case Nil
  show ?case by simp
next
  case (Cons t ts)
  show ?case
    by (simp add: wa_h2m_record) (rule case_apsnd, simp add: Cons.IH)
qed

lemma wa_m2h_loop:
  "m2h_loop e hMap its cnt (apfst (with_assignee a b) st)
     = apsnd (apfst (with_assignee a b)) (m2h_loop e hMap its cnt st)"
proof (induction its arbitrary: cnt st)
  case Nil
  show ?case by simp
next
  case (Cons it its)
  show ?case
    by (simp add: wa_m2h_record) (rule case_apsnd, simp add: Cons.IH)
qed

lemma wa_lastSync:
  "with_assignee a b (cfg\<lparr>lastSync := x\<rparr>) = (with_assignee a b cfg)\<lparr>lastSync := x\<rparr>"
  by (simp add: with_assignee_def)

lemma wa_finish:
  "(case logSync e msg ty (apfst (with_assignee a b) s) of
      (cfg4, w4) \<Rightarrow> (Inr cnt, (cfg4\<lparr>lastSync := Some (date_now e w4)\<rparr>, w4)))
   = apsnd (apfst (with_assignee a b))
       (case logSync e msg ty s of
          (cfg4, w4) \<Rightarrow> (Inr cnt, (cfg4\<lparr>lastSync := Some (date_now e w4)\<rparr>, w4)))"
  by (cases "logSync e msg ty s") (simp add: wa_logSync wa_lastSync)

lemma wa_h2m_try:
  "h2m_try e (apfst (with_assignee a b) st)
     = apsnd (apfst (with_assignee a b)) (h2m_try e st)"
  unfolding h2m_try_def
  apply (simp only: wa_logSync wa_getHubSpotTickets)
  apply (rule case_apsnd)
  apply (simp only: wa_getMondayItems)
  apply (rule case_apsnd)
  apply (simp only: wa_h2m_loop)
  apply (rule case_apsnd)
  apply (rule wa_finish)
  done

lemma wa_m2h_try:
  "m2h_try e (apfst (with_assignee a b) st)
     = apsnd (apfst (with_assignee a b)) (m2h_try e st)"
  unfolding m2h_try_def
  apply (simp only: wa_logSync wa_getMondayItems)
  apply (rule case_apsnd)
  apply (simp only: wa_getHubSpotTickets)
  apply (rule case_apsnd)
  apply (simp only: wa_m2h_loop)
  apply (rule case_apsnd)
  apply (rule wa_finish)
  done

lemma wa_syncEnabled: "syncEnabled (with_assignee a b cfg) = syncEnabled cfg"
  by (simp add: with_assignee_def)

lemma wa_syncHubSpotToMonday:
  "syncHubSpotToMonday e (apfst (with_assignee a b) st)
     = apfst (with_assignee a b) (syncHubSpotToMonday e st)"
proof -
  obtain r st' where p: "h2m_try e st = (r, st')" by (cases "h2m_try e st")
  then show ?thesis
    by (cases r) (simp_all add: syncHubSpotToMonday_def wa_h2m_try wa_syncEnabled wa_logSync)
qed

lemma wa_syncMondayToHubSpot:
  "syncMondayToHubSpot e (apfst (with_assignee a b) st)
     = apfst (with_assignee a b) (syncMondayToHubSpot e st)"
proof -
  obtain r st' where p: "m2h_try e st = (r, st')" by (cases "m2h_try e st")
  then show ?thesis
    by (cases r) (simp_all add: syncMondayToHubSpot_def wa_m2h_try wa_syncEnabled wa_logSync)
qed


text \<open>
  C10, as the program has it. The assignee rule and the assignee column are read by no
  pass: with any other rule and column each pass, and the full sync, makes the same
  calls and leaves the same world and the same configuration (but for the two settings
  themselves). The keys of \<open>updateData\<close> are among the four logical fields and the
  HubSpot properties among \<open>subject\<close>, \<open>content\<close>, \<open>hs_pipeline_stage\<close> and
  \<open>hs_ticket_priority\<close>: none is the owner. The Monday column values are keyed by the
  columns mapped to description, status and priority, and by nothing else: the
  assignee's column is not among them as long as none of the three fields is mapped
  onto it.
\<close>

theorem assignee_rule_is_inert:
  "syncHubSpotToMonday e (with_assignee a b cfg, w)
     = apfst (with_assignee a b) (syncHubSpotToMonday e (cfg, w))
 \<and> syncMondayToHubSpot e (with_assignee a b cfg, w)
     = apfst (with_assignee a b) (syncMondayToHubSpot e (cfg, w))
 \<and> performFullSync e (with_assignee a b cfg, w)
     = apfst (with_assignee a b) (performFullSync e (cfg, w))
 \<and> snd (performFullSync e (with_assignee a b cfg, w)) = snd (performFullSync e (cfg, w))
 \<and> h2m_plan (with_assignee a b cfg) mMap t = h2m_plan cfg mMap t
 \<and> m2h_plan (with_assignee a b cfg) hMap it = m2h_plan cfg hMap it
 \<and> set (Object_keys (h2m_updateData cfg td))
     \<subseteq> {''subject'', ''content'', ''status'', ''priority''}
 \<and> set (Object_keys (m2h_updateData cfg td))
     \<subseteq> {''subject'', ''content'', ''status'', ''priority''}
 \<and> Object_keys (createHubSpotTicket_properties td)
     = [''subject'', ''content'', ''hs_pipeline_stage'', ''hs_ticket_priority'']
 \<and> set (Object_keys (updateHubSpotTicket_properties ud))
     \<subseteq> {''subject'', ''content'', ''hs_pipeline_stage'', ''hs_ticket_priority''}
 \<and> set (Object_keys (createMondayItem_columnValues cfg td))
     \<subseteq> {m_description (fieldMapping cfg), m_status (fieldMapping cfg),
         m_priority (fieldMapping cfg)}
 \<and> set (Object_keys (updateMondayItem_columnValues cfg ud))
     \<subseteq> {m_description (fieldMapping cfg), m_status (fieldMapping cfg),
         m_priority (fieldMapping cfg)}
 \<and> (m_assignee (fieldMapping cfg)
       \<notin> {m_description (fieldMapping cfg), m_status (fieldMapping cfg),
           m_priority (fieldMapping cfg)} \<longrightarrow>
     m_assignee (fieldMapping cfg) \<notin> set (Object_keys (createMondayItem_columnValues cfg td))
   \<and> m_assignee (fieldMapping cfg) \<notin> set (Object_keys (updateMondayItem_columnValues cfg ud)))"
proof -
  have s1: "syncHubSpotToMonday e (with_assignee a b cfg, w)
     = apfst (with_assignee a b) (syncHubSpotToMonday e (cfg, w))"
    using wa_syncHubSpotToMonday [of e a b "(cfg, w)"] by simp
  have s2: "syncMondayToHubSpot e (with_assignee a b cfg, w)
     = apfst (with_assignee a b) (syncMondayToHubSpot e (cfg, w))"
    using wa_syncMondayToHubSpot [of e a b "(cfg, w)"] by simp
  have s3: "performFullSync e (with_assignee a b cfg, w)
     = apfst (with_assignee a b) (performFullSync e (cfg, w))"
    by (simp add: performFullSync_def s1 wa_syncMondayToHubSpot)
  have s4: "snd (performFullSync e (with_assignee a b cfg, w)) = snd (performFullSync e (cfg, w))"
    by (simp add: s3)
  have k1: "set (Object_keys (h2m_updateData cfg td))
     \<subseteq> {''subject'', ''content'', ''status'', ''priority''}"
    by (auto simp: keys_h2m_updateData split: if_splits)
  have k2: "set (Object_keys (m2h_updateData cfg td))
     \<subseteq> {''subject'', ''content'', ''status'', ''priority''}"
    by (auto simp: keys_m2h_updateData split: if_splits)
  have k3: "Object_keys (createHubSpotTicket_properties td)
     = [''subject'', ''content'', ''hs_pipeline_stage'', ''hs_ticket_priority'']"
    by (simp add: createHubSpotTicket_properties_def Object_keys_def)
  have k4: "set (Object_keys (updateHubSpotTicket_properties ud))
     \<subseteq> {''subject'', ''content'', ''hs_pipeline_stage'', ''hs_ticket_priority''}"
    by (auto simp: updateHubSpotTicket_properties_def Let_def keys_obj_set Object_keys_Nil
             split: if_splits)
  have k5: "set (Object_keys (createMondayItem_columnValues cfg td))
     \<subseteq> {m_description (fieldMapping cfg), m_status (fieldMapping cfg),
         m_priority (fieldMapping cfg)}"
    by (auto simp: createMondayItem_columnValues_def Let_def keys_obj_set Object_keys_Nil
             split: if_splits)
  have k6: "set (Object_keys (updateMondayItem_columnValues cfg ud))
     \<subseteq> {m_description (fieldMapping cfg), m_status (fieldMapping cfg),
         m_priority (fieldMapping cfg)}"
    by (auto simp: updateMondayItem_columnValues_def Let_def keys_obj_set Object_keys_Nil
             split: if_splits)
  from k5 k6
  have k7: "m_assignee (fieldMapping cfg)
       \<notin> {m_description (fieldMapping cfg), m_status (fieldMapping cfg),
           m_priority (fieldMapping cfg)} \<longrightarrow>
     m_assignee (fieldMapping cfg) \<notin> set (Object_keys (createMondayItem_columnValues cfg td))
   \<and> m_assignee (fieldMapping cfg) \<notin> set (Object_keys (updateMondayItem_columnValues cfg ud))"
    by blast
  from s1 s2 s3 s4 k1 k2 k3 k4 k5 k6 k7
       wa_h2m_plan [of a b cfg mMap t] wa_m2h_plan [of a b cfg hMap it]
  show ?thesis by blast
qed

text \<open>
  With the status mapped onto the assignee's column \<open>person\<close>, the pass from HubSpot to
  Monday creates the item of \<open>Bug 1\<close> with the ticket's stage in that column.
\<close>

theorem assignee_column_written_counterexample:
  "m_assignee (fieldMapping ex_config_aliased) = ''person''
 \<and> createMondayItem_columnValues ex_config_aliased
       (h2m_ticketData (ex_ticket ''101'' ''Bug 1'' (Str ''open'') (Str ''HIGH'')))
     = [(''text'', Str ''details''), (''person'', Str ''open''), (''priority'', Str ''HIGH'')]
 \<and> take 3 (sim_calls (snd (syncHubSpotToMonday sim_env (ex_config_aliased, ex_world [] []))))
     = [GetTickets ''Bearer pat-na1'',
        MondayPost ''eyJ'' (ItemsQuery ''1234567890''),
        MondayPost ''eyJ'' (CreateItem ''1234567890'' (Str ''Bug 1'')
          [(''text'', Str ''details''), (''person'', Str ''open''),
           (''priority'', Str ''HIGH'')])]
 \<and> map column_values
       (take 1 (sim_items (snd (syncHubSpotToMonday sim_env (ex_config_aliased, ex_world [] [])))))
     = [[\<lparr>col_id = ''text'', col_text = Str ''details''\<rparr>,
         \<lparr>col_id = ''person'', col_text = Str ''open''\<rparr>,
         \<lparr>col_id = ''priority'', col_text = Str ''HIGH''\<rparr>]]"
  by code_simp

text \<open>
  The theorem at work: with the default mapping the assignee's column \<open>person\<close> is none
  of the three mapped columns and is no key of what is sent, and the full sync with the
  rule \<open>hubspot\<close> and the column \<open>owner\<close> for the assignee leaves the same world.
\<close>

theorem assignee_rule_is_inert_witness:
  "m_assignee (fieldMapping ex_config)
     \<notin> {m_description (fieldMapping ex_config), m_status (fieldMapping ex_config),
         m_priority (fieldMapping ex_config)}
 \<and> ''person'' \<notin> set (Object_keys (createMondayItem_columnValues ex_config
       (h2m_ticketData (ex_ticket ''101'' ''Bug 1'' (Str ''open'') (Str ''HIGH'')))))
 \<and> ''person'' \<notin> set (Object_keys (updateMondayItem_columnValues ex_config
       [(''content'', Str ''details''), (''status'', Str ''open'')]))
 \<and> snd (performFullSync sim_env (with_assignee ''hubspot'' ''owner'' ex_config, ex_world [] []))
     = snd (performFullSync sim_env (ex_config, ex_world [] []))
 \<and> fieldRules (fst (performFullSync sim_env
       (with_assignee ''hubspot'' ''owner'' ex_config, ex_world [] [])))
     = (fieldRules ex_config)\<lparr>r_assignee := ''hubspot''\<rparr>"
proof -
  note T = assignee_rule_is_inert
             [where e = sim_env and a = "''hubspot''" and b = "''owner''" and cfg = ex_config
                and w = "ex_world [] []"
                and td = "h2m_ticketData (ex_ticket ''101'' ''Bug 1'' (Str ''open'') (Str ''HIGH''))"
                and ud = "[(''content'', Str ''details''), (''status'', Str ''open'')]"]
  have h: "m_assignee (fieldMapping ex_config)
     \<notin> {m_description (fieldMapping ex_config), m_status (fieldMapping ex_config),
         m_priority (fieldMapping ex_config)}"
    by code_simp
  have p: "m_assignee (fieldMapping ex_config) = ''person''"
    by code_simp
  have f: "fieldRules (fst (performFullSync sim_env (ex_config, ex_world [] [])))
             = fieldRules ex_config"
    by code_simp
  have g: "fieldRules (fst (performFullSync sim_env
             (with_assignee ''hubspot'' ''owner'' ex_config, ex_world [] [])))
           = (fieldRules ex_config)\<lparr>r_assignee := ''hubspot''\<rparr>"
    using T f by (simp add: with_assignee_def)
  from T h p g show ?thesis by simp
qed

end
